theory Spec2Isabelle
  imports Main "HOL-Library.Word"
begin

unbundle bit_operations_syntax

section \<open>The syscall dispatcher of reprozip's tracer (native/syscalls.c)\<close>

text \<open>
  The embedding follows \<^verbatim>\<open>src/reprozip/native/syscalls.c\<close> as compiled for an
  x86-64 host (the macro \<^verbatim>\<open>X86_64\<close> is defined, so three ABI tables exist and the
  execve workaround of \<^verbatim>\<open>syscall_handle\<close> is present).

  \<^item> A \<^verbatim>\<open>struct Process *\<close> is an index into the registry \<^verbatim>\<open>processes[]\<close>,
    which is a list of records; \<^verbatim>\<open>processes_size\<close> is its length.
  \<^item> Registers (\<^verbatim>\<open>register_type\<close>) are 64-bit words; the member \<^verbatim>\<open>.i\<close> reads
    them signed (\<open>sint\<close>), \<^verbatim>\<open>.u\<close> and \<^verbatim>\<open>.p\<close> unsigned.
  \<^item> \<^verbatim>\<open>int\<close>, \<^verbatim>\<open>unsigned int\<close>, \<^verbatim>\<open>pid_t\<close> and \<^verbatim>\<open>socklen_t\<close> are 32-bit words.
  \<^item> Every call that leaves the dispatcher (event sink, proc scraper, logger, ptrace
    resume) and every release of memory owned by a \<^verbatim>\<open>Process\<close> is appended to a
    trace, in program order.
  \<^item> What the outside world answers (tracee memory, the file system, the sink's return
    codes) is a parameter, the record \<open>env\<close>.
  \<^item> A null-pointer dereference or a read past the end of a table is undefined
    behaviour in C; the model stops there with \<open>Inl\<close>, carrying the state reached.
\<close>

subsection \<open>Constants of the Linux headers and of the tracer\<close>

definition X32_SYSCALL_BIT :: "32 word" where "X32_SYSCALL_BIT = 0x40000000"
definition SYS_CONNECT :: "64 word" where "SYS_CONNECT = 3"
definition SYS_ACCEPT :: "64 word" where "SYS_ACCEPT = 5"

definition SYSCALL_I386 :: nat where "SYSCALL_I386 = 0"
definition SYSCALL_X86_64 :: nat where "SYSCALL_X86_64 = 1"
definition SYSCALL_X86_64_x32 :: nat where "SYSCALL_X86_64_x32 = 2"

definition O_RDONLY :: "64 word" where "O_RDONLY = 0"
definition O_WRONLY :: "64 word" where "O_WRONLY = 1"
definition O_RDWR :: "64 word" where "O_RDWR = 2"
definition O_ACCMODE :: "64 word" where "O_ACCMODE = 3"
definition O_CREAT :: "64 word" where "O_CREAT = 0x40"
definition O_TRUNC :: "64 word" where "O_TRUNC = 0x200"
definition AT_FDCWD :: int where "AT_FDCWD = - 100"
definition CLONE_THREAD :: "64 word" where "CLONE_THREAD = 0x00010000"
definition AF_INET :: int where "AF_INET = 2"
definition AF_INET6 :: int where "AF_INET6 = 10"
definition sizeof_short :: nat where "sizeof_short = 2"
definition sizeof_sockaddr_in :: nat where "sizeof_sockaddr_in = 16"
definition sizeof_sockaddr_in6 :: nat where "sizeof_sockaddr_in6 = 28"

definition FILE_READ :: "32 word" where "FILE_READ = 1"
definition FILE_WRITE :: "32 word" where "FILE_WRITE = 2"
definition FILE_WDIR :: "32 word" where "FILE_WDIR = 4"
definition FILE_STAT :: "32 word" where "FILE_STAT = 8"

definition PROCESS_ARGS :: nat where "PROCESS_ARGS = 6"

definition SYSCALL_OPENING_OPEN :: "32 word" where "SYSCALL_OPENING_OPEN = 1"
definition SYSCALL_OPENING_ACCESS :: "32 word" where "SYSCALL_OPENING_ACCESS = 2"
definition SYSCALL_OPENING_CREAT :: "32 word" where "SYSCALL_OPENING_CREAT = 3"

definition SYSCALL_FORK_FORK :: "32 word" where "SYSCALL_FORK_FORK = 1"
definition SYSCALL_FORK_VFORK :: "32 word" where "SYSCALL_FORK_VFORK = 2"
definition SYSCALL_FORK_CLONE :: "32 word" where "SYSCALL_FORK_CLONE = 3"

subsection \<open>Data model\<close>

datatype tracee_mode = MODE_I386 | MODE_X86_64

datatype process_status = PROCESS_FREE | PROCESS_ALLOCATED | PROCESS_ATTACHED | PROCESS_UNKNOWN

record ExecveInfo =
  binary :: string
  argv :: "string list"
  envp :: "string list"

record Process =
  "identifier" :: "32 word"
  mode :: tracee_mode
  tid :: "32 word"
  tgid :: "32 word"
  status :: process_status
  in_syscall :: bool
  current_syscall :: "32 word"
  retvalue :: "64 word"
  params :: "64 word list"
  syscall_info :: "ExecveInfo option"
  wd :: string

text \<open>The function pointers stored in a table entry.\<close>

datatype handler =
    H_unhandled_path1 | H_unhandled_other | H_fileopening | H_filestat | H_readlink
  | H_mkdir | H_symlink | H_chdir | H_execve_in | H_execve_out | H_forking
  | H_socketcall | H_accept | H_connect | H_xxx_at

record syscall_table_entry =
  name :: "string option"
  proc_entry :: "handler option"
  proc_exit :: "handler option"
  udata :: "32 word"

record syscall_table =
  table_length :: nat
  entries :: "syscall_table_entry list"

record unprocessed_table_entry =
  n :: nat
  uname :: "string option"
  uproc_entry :: "handler option"
  uproc_exit :: "handler option"
  uudata :: "32 word"

subsection \<open>The trace of outward calls\<close>

datatype sockaddr_text =
    SA_inet "8 word list" "16 word"
  | SA_inet6 "8 word list" "16 word"
  | SA_unknown int

datatype log_level = Critical | Error | Warn | Info | Debug

datatype log_arg = LStr string | LInt int | LSock sockaddr_text | LStatus process_status

datatype owned = Wd nat | Execve_info nat

datatype event =
    Db_add_process "32 word" string
  | Db_add_file_open "32 word" string "32 word" bool
  | Db_add_exec "32 word" string "string list" "string list" string
  | Db_add_exit "32 word" int
  | Add_files_from_proc "32 word" "32 word" string
  | Log log_level "32 word" string "log_arg list"
  | Ptrace_SYSCALL "32 word"
  | Mem_free owned

record state =
  processes :: "Process list"
  trace :: "event list"

datatype error = Null_deref | Out_of_bounds

type_synonym result = "(error \<times> state) + (int \<times> state)"

text \<open>
  The collaborators that are not part of this file of the tracer. \<open>sink_fails\<close> says
  whether a call to the event sink or the proc scraper returns non-zero, given
  the calls it received before; \<open>sink_identifier\<close> is the identifier that
  \<^verbatim>\<open>db_add_process\<close> writes through its first argument.
\<close>

record env =
  verbosity :: int
  tracee_strdup :: "32 word \<Rightarrow> 64 word \<Rightarrow> string"
  tracee_strarraydup :: "tracee_mode \<Rightarrow> 32 word \<Rightarrow> 64 word \<Rightarrow> string list"
  tracee_mem :: "32 word \<Rightarrow> 64 word \<Rightarrow> 8 word"
  tracee_getptr :: "tracee_mode \<Rightarrow> 32 word \<Rightarrow> 64 word \<Rightarrow> 64 word"
  tracee_getlong :: "tracee_mode \<Rightarrow> 32 word \<Rightarrow> 64 word \<Rightarrow> 64 word"
  abspath :: "string \<Rightarrow> string \<Rightarrow> string"
  path_is_dir :: "string \<Rightarrow> bool"
  sink_fails :: "event list \<Rightarrow> event \<Rightarrow> bool"
  sink_identifier :: "event list \<Rightarrow> event \<Rightarrow> 32 word"
  trace_count_processes :: "Process list \<Rightarrow> nat \<times> nat"

subsection \<open>State helpers\<close>

definition emit :: "event \<Rightarrow> state \<Rightarrow> state" where
  "emit e s = s\<lparr>trace := trace s @ [e]\<rparr>"

definition upd_proc :: "nat \<Rightarrow> (Process \<Rightarrow> Process) \<Rightarrow> state \<Rightarrow> state" where
  "upd_proc i f s = s\<lparr>processes := (processes s)[i := f (processes s ! i)]\<rparr>"

definition proc :: "state \<Rightarrow> nat \<Rightarrow> Process" where
  "proc s i = processes s ! i"

definition log_if :: "bool \<Rightarrow> event \<Rightarrow> state \<Rightarrow> state" where
  "log_if c e s = (if c then emit e s else s)"

definition is_sink_event :: "event \<Rightarrow> bool" where
  "is_sink_event e = (case e of
       Db_add_process _ _ \<Rightarrow> True
     | Db_add_file_open _ _ _ _ \<Rightarrow> True
     | Db_add_exec _ _ _ _ _ \<Rightarrow> True
     | Db_add_exit _ _ \<Rightarrow> True
     | Add_files_from_proc _ _ _ \<Rightarrow> True
     | _ \<Rightarrow> False)"

definition sink_events :: "state \<Rightarrow> event list" where
  "sink_events s = filter is_sink_event (trace s)"

definition is_warning :: "event \<Rightarrow> bool" where
  "is_warning e = (case e of Log Warn _ _ _ \<Rightarrow> True | _ \<Rightarrow> False)"

definition is_critical :: "event \<Rightarrow> bool" where
  "is_critical e = (case e of Log Critical _ _ _ \<Rightarrow> True | _ \<Rightarrow> False)"

text \<open>
  A sink call: the event is emitted, then the caller tests the return code.
  The pair is (the call returned non-zero, the state after the call).
\<close>

definition sink_call :: "env \<Rightarrow> event \<Rightarrow> state \<Rightarrow> bool \<times> state" where
  "sink_call E e s = (sink_fails E (sink_events s) e, emit e s)"

subsection \<open>Helpers of other files of the tracer\<close>

text \<open>
  Modelled from the spec: \<^verbatim>\<open>flags2mode\<close> (utils.c, not among the sources).
  FILE_READ if the access mode is RDONLY or RDWR; FILE_WRITE if the access mode is
  WRONLY or RDWR, or O_CREAT or O_TRUNC is set.
\<close>

definition flags2mode :: "64 word \<Rightarrow> 32 word" where
  "flags2mode flags =
     (let acc = flags AND O_ACCMODE in
        (if acc = O_RDONLY \<or> acc = O_RDWR then FILE_READ else 0)
        OR (if acc = O_WRONLY \<or> acc = O_RDWR \<or> flags AND O_CREAT \<noteq> 0 \<or> flags AND O_TRUNC \<noteq> 0
            then FILE_WRITE else 0))"

text \<open>
  Modelled from the spec: \<^verbatim>\<open>tracee_getwordsize\<close> (ptrace_utils.c, not among the
  sources): 4 bytes on I386, 8 bytes on X86_64.
\<close>

definition tracee_getwordsize :: "tracee_mode \<Rightarrow> 64 word" where
  "tracee_getwordsize m = (case m of MODE_I386 \<Rightarrow> 4 | MODE_X86_64 \<Rightarrow> 8)"

text \<open>
  Modelled from the spec: \<^verbatim>\<open>tracee_read\<close> (ptrace_utils.c, not among the sources)
  reads \<open>len\<close> bytes of the stopped tracee, starting at \<open>addr\<close>.
\<close>

definition tracee_read :: "env \<Rightarrow> 32 word \<Rightarrow> 64 word \<Rightarrow> nat \<Rightarrow> 8 word list" where
  "tracee_read E t addr len = map (\<lambda>i. tracee_mem E t (addr + of_nat i)) [0..<len]"

text \<open>
  The search loops over the registry that stop at the first hit: the index of the first
  slot, counting from \<open>i\<close>, that satisfies \<open>P\<close>.
\<close>

fun find_from :: "(Process \<Rightarrow> bool) \<Rightarrow> Process list \<Rightarrow> nat \<Rightarrow> nat option" where
  "find_from P [] i = None"
| "find_from P (p # ps) i = (if P p then Some i else find_from P ps (Suc i))"

text \<open>
  Modelled from the spec: \<^verbatim>\<open>trace_find_process\<close> (tracer.c, not among the sources)
  looks a task id up in the registry; a slot with status FREE holds no task.
\<close>

definition trace_find_process :: "Process list \<Rightarrow> 32 word \<Rightarrow> nat option" where
  "trace_find_process ps t = find_from (\<lambda>p. status p \<noteq> PROCESS_FREE \<and> tid p = t) ps 0"

text \<open>
  Modelled from the spec: \<^verbatim>\<open>trace_get_empty_process\<close> (tracer.c, not among the
  sources) hands out a slot that holds no task: a slot whose status is FREE (such a slot
  "may later be reused") or else a new slot at the end of the registry.
\<close>

definition fresh_slot :: Process where
  "fresh_slot = \<lparr>identifier = 0, mode = MODE_X86_64, tid = 0, tgid = 0,
     status = PROCESS_FREE, in_syscall = False, current_syscall = - 1, retvalue = 0,
     params = replicate PROCESS_ARGS 0, syscall_info = None, wd = []\<rparr>"

definition trace_get_empty_process :: "state \<Rightarrow> nat \<times> state" where
  "trace_get_empty_process s =
     (case find_from (\<lambda>p. status p = PROCESS_FREE) (processes s) 0 of
        Some i \<Rightarrow> (i, s)
      | None \<Rightarrow> (length (processes s), s\<lparr>processes := processes s @ [fresh_slot]\<rparr>))"

subsection \<open>Path arguments\<close>

definition abs_path_arg :: "env \<Rightarrow> Process \<Rightarrow> nat \<Rightarrow> string" where
  "abs_path_arg E process arg =
     (let pathname = tracee_strdup E (tid process) (params process ! arg) in
      case pathname of
        c # _ \<Rightarrow> (if c \<noteq> CHR ''/'' then abspath E (wd process) pathname else pathname)
      | [] \<Rightarrow> abspath E (wd process) pathname)"

definition le16 :: "8 word list \<Rightarrow> nat \<Rightarrow> 16 word" where
  "le16 bs i = ucast (bs ! i) OR push_bit 8 (ucast (bs ! (i + 1)))"

definition be16 :: "8 word list \<Rightarrow> nat \<Rightarrow> 16 word" where
  "be16 bs i = push_bit 8 (ucast (bs ! i)) OR ucast (bs ! (i + 1))"

definition print_sockaddr :: "8 word list \<Rightarrow> 32 word \<Rightarrow> sockaddr_text" where
  "print_sockaddr address addrlen =
     (let family = sint (le16 address 0) in
      if family = AF_INET \<and> unat addrlen \<ge> sizeof_sockaddr_in
      then SA_inet (take 4 (drop 4 address)) (be16 address 2)
      else if family = AF_INET6 \<and> unat addrlen \<ge> sizeof_sockaddr_in6
      then SA_inet6 (take 16 (drop 8 address)) (be16 address 2)
      else SA_unknown family)"

subsection \<open>Handlers\<close>

definition syscall_unhandled_path1 :: "env \<Rightarrow> string option \<Rightarrow> nat \<Rightarrow> 32 word \<Rightarrow> state \<Rightarrow> result" where
  "syscall_unhandled_path1 E nm pi ud s =
     (let process = proc s pi in
      if verbosity E \<ge> 1 \<and> in_syscall process \<and> sint (retvalue process) \<ge> 0 \<and> nm \<noteq> None
      then Inr (0, emit (Log Warn (tid process) ''process used unhandled system call %s(\"%s\")''
                          [LStr (the nm), LStr (abs_path_arg E process 0)]) s)
      else Inr (0, s))"

definition syscall_unhandled_other :: "env \<Rightarrow> string option \<Rightarrow> nat \<Rightarrow> 32 word \<Rightarrow> state \<Rightarrow> result" where
  "syscall_unhandled_other E nm pi ud s =
     (let process = proc s pi in
      if verbosity E \<ge> 1 \<and> in_syscall process \<and> sint (retvalue process) \<ge> 0 \<and> nm \<noteq> None
      then Inr (0, emit (Log Warn (tid process) ''process used unhandled system call %s''
                          [LStr (the nm)]) s)
      else Inr (0, s))"

definition mode_string :: "32 word \<Rightarrow> string" where
  "mode_string m =
     (let mode_buf =
          (if m AND FILE_READ \<noteq> 0 then ''|FILE_READ'' else [])
        @ (if m AND FILE_WRITE \<noteq> 0 then ''|FILE_WRITE'' else [])
        @ (if m AND FILE_WDIR \<noteq> 0 then ''|FILE_WDIR'' else [])
        @ (if m AND FILE_STAT \<noteq> 0 then ''|FILE_STAT'' else [])
      in case mode_buf of [] \<Rightarrow> ''0'' | _ # r \<Rightarrow> r)"

definition success_string :: "64 word \<Rightarrow> string" where
  "success_string r = (if sint r \<ge> 0 then ''success'' else ''failure'')"

definition syscall_fileopening :: "env \<Rightarrow> string option \<Rightarrow> nat \<Rightarrow> 32 word \<Rightarrow> state \<Rightarrow> result" where
  "syscall_fileopening E nm pi syscall s =
     (let process = proc s pi;
          pathname = abs_path_arg E process 0;
          m = (if syscall = SYSCALL_OPENING_ACCESS then FILE_STAT
               else if syscall = SYSCALL_OPENING_CREAT
               then flags2mode (params process ! 1 OR O_CREAT OR O_WRONLY OR O_TRUNC)
               else flags2mode (params process ! 1));
          s1 = log_if (verbosity E \<ge> 3)
                 (if syscall = SYSCALL_OPENING_OPEN
                  then Log Debug (tid process) ''open(\"%s\", mode=%s) = %d (%s)''
                         [LStr pathname, LStr (mode_string m),
                          LInt (sint (ucast (retvalue process) :: 32 word)),
                          LStr (success_string (retvalue process))]
                  else Log Debug (tid process) ''%s(\"%s\") (mode=%s) = %d (%s)''
                         [LStr (if syscall = SYSCALL_OPENING_OPEN then ''open''
                                else if syscall = SYSCALL_OPENING_CREAT then ''creat''
                                else ''access''),
                          LStr pathname, LStr (mode_string m),
                          LInt (sint (ucast (retvalue process) :: 32 word)),
                          LStr (success_string (retvalue process))]) s
      in if sint (retvalue process) \<ge> 0
         then (case sink_call E (Db_add_file_open (identifier process) pathname m
                                    (path_is_dir E pathname)) s1 of
                 (failed, s2) \<Rightarrow> if failed then Inr (- 1, s2) else Inr (0, s2))
         else Inr (0, s1))"

definition syscall_filestat :: "env \<Rightarrow> string option \<Rightarrow> nat \<Rightarrow> 32 word \<Rightarrow> state \<Rightarrow> result" where
  "syscall_filestat E nm pi ud s =
     (let process = proc s pi;
          pathname = abs_path_arg E process 0
      in if sint (retvalue process) \<ge> 0
         then (case sink_call E (Db_add_file_open (identifier process) pathname FILE_STAT
                                    (path_is_dir E pathname)) s of
                 (failed, s2) \<Rightarrow> if failed then Inr (- 1, s2) else Inr (0, s2))
         else Inr (0, s))"

definition syscall_readlink :: "env \<Rightarrow> string option \<Rightarrow> nat \<Rightarrow> 32 word \<Rightarrow> state \<Rightarrow> result" where
  "syscall_readlink E nm pi ud s =
     (let process = proc s pi;
          pathname = abs_path_arg E process 0
      in if sint (retvalue process) \<ge> 0
         then (case sink_call E (Db_add_file_open (identifier process) pathname FILE_STAT False) s of
                 (failed, s2) \<Rightarrow> if failed then Inr (- 1, s2) else Inr (0, s2))
         else Inr (0, s))"

definition syscall_mkdir :: "env \<Rightarrow> string option \<Rightarrow> nat \<Rightarrow> 32 word \<Rightarrow> state \<Rightarrow> result" where
  "syscall_mkdir E nm pi ud s =
     (let process = proc s pi;
          pathname = abs_path_arg E process 0
      in if sint (retvalue process) \<ge> 0
         then (case sink_call E (Db_add_file_open (identifier process) pathname FILE_WRITE True) s of
                 (failed, s2) \<Rightarrow> if failed then Inr (- 1, s2) else Inr (0, s2))
         else Inr (0, s))"

definition syscall_symlink :: "env \<Rightarrow> string option \<Rightarrow> nat \<Rightarrow> 32 word \<Rightarrow> state \<Rightarrow> result" where
  "syscall_symlink E nm pi is_symlinkat s =
     (let process = proc s pi in
      if is_symlinkat \<noteq> 0 \<and> sint (params process ! 1) \<noteq> AT_FDCWD
      then syscall_unhandled_other E nm pi 0 s
      else
        (let pathname = (if is_symlinkat \<noteq> 0 then abs_path_arg E process 2
                         else abs_path_arg E process 1)
         in if sint (retvalue process) \<ge> 0
            then (case sink_call E (Db_add_file_open (identifier process) pathname FILE_WRITE True) s of
                    (failed, s2) \<Rightarrow> if failed then Inr (- 1, s2) else Inr (0, s2))
            else Inr (0, s)))"

definition syscall_chdir :: "env \<Rightarrow> string option \<Rightarrow> nat \<Rightarrow> 32 word \<Rightarrow> state \<Rightarrow> result" where
  "syscall_chdir E nm pi ud s =
     (let process = proc s pi;
          pathname = abs_path_arg E process 0
      in if sint (retvalue process) \<ge> 0
         then (let s1 = emit (Mem_free (Wd pi)) s;
                   s2 = upd_proc pi (\<lambda>p. p\<lparr>wd := pathname\<rparr>) s1
               in case sink_call E (Db_add_file_open (identifier (proc s2 pi)) pathname FILE_WDIR True) s2 of
                    (failed, s3) \<Rightarrow> if failed then Inr (- 1, s3) else Inr (0, s3))
         else Inr (0, s))"


definition syscall_execve_in :: "env \<Rightarrow> string option \<Rightarrow> nat \<Rightarrow> 32 word \<Rightarrow> state \<Rightarrow> result" where
  "syscall_execve_in E nm pi ud s =
     (let process = proc s pi;
          execi = \<lparr>binary = abs_path_arg E process 0,
                   argv = tracee_strarraydup E (mode process) (tid process) (params process ! 1),
                   envp = tracee_strarraydup E (mode process) (tid process) (params process ! 2)\<rparr>;
          s1 = (if verbosity E \<ge> 3
                then emit (Log Debug (tid process) ''  envp: (%u entries)''
                             [LInt (int (length (envp execi)))])
                       (fold (\<lambda>v. emit (Log Debug (tid process) ''    %s'' [LStr v])) (argv execi)
                          (emit (Log Debug (tid process) ''execve called: binary=%s argv:''
                                   [LStr (binary execi)]) s))
                else s)
      in Inr (0, upd_proc pi (\<lambda>p. p\<lparr>syscall_info := Some execi\<rparr>) s1))"

text \<open>
  The part of \<^verbatim>\<open>syscall_execve_out\<close> after the search for the caller: \<open>process\<close> is
  the task the stop was delivered on, \<open>exec_process\<close> the task whose scratch \<open>execi\<close> is.
\<close>

definition execve_out_finish :: "env \<Rightarrow> nat \<Rightarrow> nat \<Rightarrow> ExecveInfo \<Rightarrow> state \<Rightarrow> result" where
  "execve_out_finish E pi exec_process execi s =
     (let release = (\<lambda>s'. Inr (0, upd_proc exec_process (\<lambda>p. p\<lparr>syscall_info := None\<rparr>)
                                    (emit (Mem_free (Execve_info exec_process)) s')))
      in if sint (retvalue (proc s pi)) \<ge> 0
         then (case sink_call E (Db_add_exec (identifier (proc s pi)) (binary execi) (argv execi)
                                    (envp execi) (wd (proc s pi))) s of
                 (failed, s1) \<Rightarrow>
                   if failed then Inr (- 1, s1)
                   else (let s2 = log_if (verbosity E \<ge> 2)
                                    (Log Info (tid (proc s1 exec_process)) ''successfully exec'd %s''
                                       [LStr (binary execi)]) s1
                         in case sink_call E (Add_files_from_proc (identifier (proc s2 pi))
                                                (tid (proc s2 pi)) (binary execi)) s2 of
                              (failed2, s3) \<Rightarrow> if failed2 then Inr (- 1, s3) else release s3))
         else release s)"

definition execve_caller :: "Process \<Rightarrow> 32 word \<Rightarrow> Process \<Rightarrow> bool" where
  "execve_caller process execve_syscall p \<longleftrightarrow>
     status p = PROCESS_ATTACHED \<and> tgid p = tgid process \<and> in_syscall p
     \<and> current_syscall p = execve_syscall \<and> syscall_info p \<noteq> None"

definition syscall_execve_out :: "env \<Rightarrow> string option \<Rightarrow> nat \<Rightarrow> 32 word \<Rightarrow> state \<Rightarrow> result" where
  "syscall_execve_out E nm pi execve_syscall s =
     (let process = proc s pi;
          exec_process0 = Some pi
      in case syscall_info process of
           Some execi \<Rightarrow> execve_out_finish E pi pi execi s
         | None \<Rightarrow>
             (let exec_process1 =
                    (case find_from (execve_caller process execve_syscall) (processes s) 0 of
                       Some i \<Rightarrow> Some i
                     | None \<Rightarrow> exec_process0)
              in case exec_process1 of
                   None \<Rightarrow> Inr (- 1, emit (Log Critical (tid process)
                                            ''execve() completed but call wasn't recorded'' []) s)
                 | Some exec_process \<Rightarrow>
                     (let execi = syscall_info (proc s exec_process) in
                      case sink_call E (Db_add_exit (identifier (proc s exec_process)) 0) s of
                        (failed, s1) \<Rightarrow>
                          if failed then Inr (- 1, s1)
                          else (let s2 = upd_proc exec_process (\<lambda>p. p\<lparr>status := PROCESS_FREE\<rparr>)
                                           (emit (Mem_free (Wd exec_process)) s1)
                                in case execi of
                                     None \<Rightarrow> Inl (Null_deref, s2)
                                   | Some ei \<Rightarrow> execve_out_finish E pi exec_process ei s2))))"

text \<open>
  The part of \<^verbatim>\<open>syscall_forking\<close> after its two branches join: \<open>new_process\<close> is the
  slot of the new task.
\<close>

definition forking_register :: "env \<Rightarrow> nat \<Rightarrow> bool \<Rightarrow> nat \<Rightarrow> state \<Rightarrow> result" where
  "forking_register E pi is_thread new_process s3 =
     (let s4 = upd_proc new_process
                 (\<lambda>p. p\<lparr>tgid := (if is_thread then tgid (proc s3 pi) else tid p)\<rparr>) s3;
          s5 = upd_proc new_process (\<lambda>p. p\<lparr>wd := wd (proc s4 pi)\<rparr>) s4;
          ev = Db_add_process (identifier (proc s5 pi)) (wd (proc s5 pi))
      in case sink_call E ev s5 of
           (failed, s6) \<Rightarrow>
             (let s7 = upd_proc new_process
                         (\<lambda>p. p\<lparr>identifier := sink_identifier E (sink_events s5) ev\<rparr>) s6
              in if failed then Inr (- 1, s7) else Inr (0, s7)))"

definition syscall_forking :: "env \<Rightarrow> string option \<Rightarrow> nat \<Rightarrow> 32 word \<Rightarrow> state \<Rightarrow> result" where
  "syscall_forking E nm pi syscall s =
     (let process = proc s pi in
      if sint (retvalue process) > 0
      then
        (let new_tid = (ucast (retvalue process) :: 32 word);
             is_thread = (syscall = SYSCALL_FORK_CLONE \<and> params process ! 0 AND CLONE_THREAD \<noteq> 0);
             s1 = log_if (verbosity E \<ge> 2)
                    (Log Info new_tid
                       ''process created by %d via %s (thread: %s) (working directory: %s)''
                       [LInt (sint (tid process)),
                        LStr (if syscall = SYSCALL_FORK_FORK then ''fork()''
                              else if syscall = SYSCALL_FORK_VFORK then ''vfork()'' else ''clone()''),
                        LStr (if is_thread then ''yes'' else ''no''),
                        LStr (wd process)]) s
         in case trace_find_process (processes s1) new_tid of
              Some new_process \<Rightarrow>
                if status (proc s1 new_process) \<noteq> PROCESS_UNKNOWN
                then Inr (- 1, emit (Log Critical new_tid
                                      ''just created process that is already running (status=%d)''
                                      [LStatus (status (proc s1 new_process))]) s1)
                else
                  (let s2 = upd_proc new_process (\<lambda>p. p\<lparr>status := PROCESS_ATTACHED\<rparr>) s1;
                       s3 = emit (Ptrace_SYSCALL (tid (proc s2 new_process))) s2;
                       s3' = log_if (verbosity E \<ge> 2)
                               (Log Info 0 ''%d processes (inc. %d unattached)''
                                  [LInt (int (fst (trace_count_processes E (processes s3)))),
                                   LInt (int (snd (trace_count_processes E (processes s3))))]) s3
                   in forking_register E pi is_thread new_process s3')
            | None \<Rightarrow>
                (case trace_get_empty_process s1 of
                   (new_process, s2) \<Rightarrow>
                     forking_register E pi is_thread new_process
                       (upd_proc new_process
                          (\<lambda>p. p\<lparr>status := PROCESS_ALLOCATED, tid := new_tid, in_syscall := False\<rparr>) s2)))
      else Inr (0, s))"

definition le32 :: "8 word list \<Rightarrow> 32 word" where
  "le32 bs = ucast (bs ! 0) OR push_bit 8 (ucast (bs ! 1))
             OR push_bit 16 (ucast (bs ! 2)) OR push_bit 24 (ucast (bs ! 3))"

definition handle_accept :: "env \<Rightarrow> nat \<Rightarrow> 64 word \<Rightarrow> 64 word \<Rightarrow> state \<Rightarrow> result" where
  "handle_accept E pi arg1 arg2 s =
     (let process = proc s pi;
          addrlen = le32 (tracee_read E (tid process) arg2 4)
      in if unat addrlen \<ge> sizeof_short
         then (let address = tracee_read E (tid process) arg1 (unat addrlen)
               in Inr (0, emit (Log Warn (tid process) ''process accepted a connection from %s''
                                  [LSock (print_sockaddr address addrlen)]) s))
         else Inr (0, s))"

definition handle_connect :: "env \<Rightarrow> nat \<Rightarrow> 64 word \<Rightarrow> 32 word \<Rightarrow> state \<Rightarrow> result" where
  "handle_connect E pi arg1 addrlen s =
     (let process = proc s pi
      in if unat addrlen \<ge> sizeof_short
         then (let address = tracee_read E (tid process) arg1 (unat addrlen)
               in Inr (0, emit (Log Warn (tid process) ''process connected to %s''
                                  [LSock (print_sockaddr address addrlen)]) s))
         else Inr (0, s))"

definition syscall_socketcall :: "env \<Rightarrow> string option \<Rightarrow> nat \<Rightarrow> 32 word \<Rightarrow> state \<Rightarrow> result" where
  "syscall_socketcall E nm pi ud s =
     (let process = proc s pi;
          args = params process ! 1;
          wordsize = tracee_getwordsize (mode process)
      in if params process ! 0 = SYS_ACCEPT
         then handle_accept E pi
                (tracee_getptr E (mode process) (tid process) (args + 1 * wordsize))
                (tracee_getptr E (mode process) (tid process) (args + 2 * wordsize)) s
         else if params process ! 0 = SYS_CONNECT
         then handle_connect E pi
                (tracee_getptr E (mode process) (tid process) (args + 1 * wordsize))
                (ucast (tracee_getlong E (mode process) (tid process) (args + 2 * wordsize))) s
         else Inr (0, s))"

definition syscall_accept :: "env \<Rightarrow> string option \<Rightarrow> nat \<Rightarrow> 32 word \<Rightarrow> state \<Rightarrow> result" where
  "syscall_accept E nm pi ud s =
     handle_accept E pi (params (proc s pi) ! 1) (params (proc s pi) ! 2) s"

definition syscall_connect :: "env \<Rightarrow> string option \<Rightarrow> nat \<Rightarrow> 32 word \<Rightarrow> state \<Rightarrow> result" where
  "syscall_connect E nm pi ud s =
     handle_connect E pi (params (proc s pi) ! 1) (ucast (params (proc s pi) ! 2)) s"


subsection \<open>Building the syscall tables\<close>

definition U :: "nat \<Rightarrow> string option \<Rightarrow> handler option \<Rightarrow> handler option \<Rightarrow> 32 word
                 \<Rightarrow> unprocessed_table_entry" where
  "U i nm pe px ud = \<lparr>n = i, uname = nm, uproc_entry = pe, uproc_exit = px, uudata = ud\<rparr>"

definition live :: "unprocessed_table_entry \<Rightarrow> bool" where
  "live pos \<longleftrightarrow> uproc_entry pos \<noteq> None \<or> uproc_exit pos \<noteq> None"

text \<open>
  \<^verbatim>\<open>process_table\<close>: both loops run until the first entry with neither handler (the
  sentinel). The \<^verbatim>\<open>udata\<close> of a slot that no list entry fills is left uninitialised by
  the C code and never read; the model puts 0 there.
\<close>

definition null_entry :: syscall_table_entry where
  "null_entry = \<lparr>name = None, proc_entry = None, proc_exit = None, udata = 0\<rparr>"

definition process_table :: "unprocessed_table_entry list \<Rightarrow> syscall_table" where
  "process_table orig =
     (let len = fold (\<lambda>pos l. if n pos + 1 > l then n pos + 1 else l) (takeWhile live orig) 0;
          es0 = replicate len null_entry;
          es = fold (\<lambda>pos es. es[n pos := \<lparr>name = uname pos, proc_entry = uproc_entry pos,
                                            proc_exit = uproc_exit pos, udata = uudata pos\<rparr>])
                 (takeWhile live orig) es0
      in \<lparr>table_length = len, entries = es\<rparr>)"

definition list_i386 :: "unprocessed_table_entry list" where
  "list_i386 = [
      U 5 (Some ''open'') (None) (Some H_fileopening) (SYSCALL_OPENING_OPEN),
      U 8 (Some ''creat'') (None) (Some H_fileopening) (SYSCALL_OPENING_CREAT),
      U 33 (Some ''access'') (None) (Some H_fileopening) (SYSCALL_OPENING_ACCESS),
      U 106 (Some ''stat'') (None) (Some H_filestat) (0),
      U 107 (Some ''lstat'') (None) (Some H_filestat) (0),
      U 195 (Some ''stat64'') (None) (Some H_filestat) (0),
      U 18 (Some ''oldstat'') (None) (Some H_filestat) (0),
      U 196 (Some ''lstat64'') (None) (Some H_filestat) (0),
      U 84 (Some ''oldlstat'') (None) (Some H_filestat) (0),
      U 85 (Some ''readlink'') (None) (Some H_readlink) (0),
      U 39 (Some ''mkdir'') (None) (Some H_mkdir) (0),
      U 83 (Some ''symlink'') (None) (Some H_symlink) (0),
      U 12 (Some ''chdir'') (None) (Some H_chdir) (0),
      U 11 (Some ''execve'') (Some H_execve_in) (Some H_execve_out) (11),
      U 2 (Some ''fork'') (None) (Some H_forking) (SYSCALL_FORK_FORK),
      U 190 (Some ''vfork'') (None) (Some H_forking) (SYSCALL_FORK_VFORK),
      U 120 (Some ''clone'') (None) (Some H_forking) (SYSCALL_FORK_CLONE),
      U 102 (Some ''socketcall'') (None) (Some H_socketcall) (0),
      U 296 (Some ''mkdirat'') (None) (Some H_xxx_at) (39),
      U 295 (Some ''openat'') (None) (Some H_xxx_at) (5),
      U 307 (Some ''faccessat'') (None) (Some H_xxx_at) (33),
      U 305 (Some ''readlinkat'') (None) (Some H_xxx_at) (85),
      U 300 (Some ''fstatat64'') (None) (Some H_xxx_at) (195),
      U 304 (Some ''symlinkat'') (None) (Some H_symlink) (1),
      U 38 (Some ''rename'') (None) (Some H_unhandled_path1) (0),
      U 40 (Some ''rmdir'') (None) (Some H_unhandled_path1) (0),
      U 9 (Some ''link'') (None) (Some H_unhandled_path1) (0),
      U 92 (Some ''truncate'') (None) (Some H_unhandled_path1) (0),
      U 193 (Some ''truncate64'') (None) (Some H_unhandled_path1) (0),
      U 10 (Some ''unlink'') (None) (Some H_unhandled_path1) (0),
      U 15 (Some ''chmod'') (None) (Some H_unhandled_path1) (0),
      U 182 (Some ''chown'') (None) (Some H_unhandled_path1) (0),
      U 212 (Some ''chown32'') (None) (Some H_unhandled_path1) (0),
      U 16 (Some ''lchown'') (None) (Some H_unhandled_path1) (0),
      U 198 (Some ''lchown32'') (None) (Some H_unhandled_path1) (0),
      U 30 (Some ''utime'') (None) (Some H_unhandled_path1) (0),
      U 271 (Some ''utimes'') (None) (Some H_unhandled_path1) (0),
      U 277 (Some ''mq_open'') (None) (Some H_unhandled_path1) (0),
      U 278 (Some ''mq_unlink'') (None) (Some H_unhandled_path1) (0),
      U 303 (Some ''linkat'') (None) (Some H_unhandled_other) (0),
      U 302 (Some ''renameat'') (None) (Some H_unhandled_other) (0),
      U 301 (Some ''unlinkat'') (None) (Some H_unhandled_other) (0),
      U 306 (Some ''fchmodat'') (None) (Some H_unhandled_other) (0),
      U 298 (Some ''fchownat'') (None) (Some H_unhandled_other) (0),
      U 26 (Some ''ptrace'') (None) (Some H_unhandled_other) (0),
      U 341 (Some ''name_to_handle_at'') (None) (Some H_unhandled_other) (0),
      U 0 (None) (None) (None) (0)]"

definition list_x86_64 :: "unprocessed_table_entry list" where
  "list_x86_64 = [
      U 2 (Some ''open'') (None) (Some H_fileopening) (SYSCALL_OPENING_OPEN),
      U 85 (Some ''creat'') (None) (Some H_fileopening) (SYSCALL_OPENING_CREAT),
      U 21 (Some ''access'') (None) (Some H_fileopening) (SYSCALL_OPENING_ACCESS),
      U 4 (Some ''stat'') (None) (Some H_filestat) (0),
      U 6 (Some ''lstat'') (None) (Some H_filestat) (0),
      U 89 (Some ''readlink'') (None) (Some H_readlink) (0),
      U 83 (Some ''mkdir'') (None) (Some H_mkdir) (0),
      U 88 (Some ''symlink'') (None) (Some H_symlink) (0),
      U 80 (Some ''chdir'') (None) (Some H_chdir) (0),
      U 59 (Some ''execve'') (Some H_execve_in) (Some H_execve_out) (59),
      U 57 (Some ''fork'') (None) (Some H_forking) (SYSCALL_FORK_FORK),
      U 58 (Some ''vfork'') (None) (Some H_forking) (SYSCALL_FORK_VFORK),
      U 56 (Some ''clone'') (None) (Some H_forking) (SYSCALL_FORK_CLONE),
      U 43 (Some ''accept'') (None) (Some H_accept) (0),
      U 288 (Some ''accept4'') (None) (Some H_accept) (0),
      U 42 (Some ''connect'') (None) (Some H_connect) (0),
      U 258 (Some ''mkdirat'') (None) (Some H_xxx_at) (83),
      U 257 (Some ''openat'') (None) (Some H_xxx_at) (2),
      U 269 (Some ''faccessat'') (None) (Some H_xxx_at) (21),
      U 267 (Some ''readlinkat'') (None) (Some H_xxx_at) (89),
      U 262 (Some ''newfstatat'') (None) (Some H_xxx_at) (4),
      U 266 (Some ''symlinkat'') (None) (Some H_symlink) (1),
      U 82 (Some ''rename'') (None) (Some H_unhandled_path1) (0),
      U 84 (Some ''rmdir'') (None) (Some H_unhandled_path1) (0),
      U 86 (Some ''link'') (None) (Some H_unhandled_path1) (0),
      U 76 (Some ''truncate'') (None) (Some H_unhandled_path1) (0),
      U 87 (Some ''unlink'') (None) (Some H_unhandled_path1) (0),
      U 90 (Some ''chmod'') (None) (Some H_unhandled_path1) (0),
      U 92 (Some ''chown'') (None) (Some H_unhandled_path1) (0),
      U 94 (Some ''lchown'') (None) (Some H_unhandled_path1) (0),
      U 132 (Some ''utime'') (None) (Some H_unhandled_path1) (0),
      U 235 (Some ''utimes'') (None) (Some H_unhandled_path1) (0),
      U 240 (Some ''mq_open'') (None) (Some H_unhandled_path1) (0),
      U 241 (Some ''mq_unlink'') (None) (Some H_unhandled_path1) (0),
      U 265 (Some ''linkat'') (None) (Some H_unhandled_other) (0),
      U 264 (Some ''renameat'') (None) (Some H_unhandled_other) (0),
      U 263 (Some ''unlinkat'') (None) (Some H_unhandled_other) (0),
      U 268 (Some ''fchmodat'') (None) (Some H_unhandled_other) (0),
      U 260 (Some ''fchownat'') (None) (Some H_unhandled_other) (0),
      U 101 (Some ''ptrace'') (None) (Some H_unhandled_other) (0),
      U 303 (Some ''name_to_handle_at'') (None) (Some H_unhandled_other) (0),
      U 0 (None) (None) (None) (0)]"

definition list_x32 :: "unprocessed_table_entry list" where
  "list_x32 = [
      U 2 (Some ''open'') (None) (Some H_fileopening) (SYSCALL_OPENING_OPEN),
      U 85 (Some ''creat'') (None) (Some H_fileopening) (SYSCALL_OPENING_CREAT),
      U 21 (Some ''access'') (None) (Some H_fileopening) (SYSCALL_OPENING_ACCESS),
      U 4 (Some ''stat'') (None) (Some H_filestat) (0),
      U 6 (Some ''lstat'') (None) (Some H_filestat) (0),
      U 89 (Some ''readlink'') (None) (Some H_readlink) (0),
      U 83 (Some ''mkdir'') (None) (Some H_mkdir) (0),
      U 88 (Some ''symlink'') (None) (Some H_symlink) (0),
      U 80 (Some ''chdir'') (None) (Some H_chdir) (0),
      U 520 (Some ''execve'') (Some H_execve_in) (Some H_execve_out) (X32_SYSCALL_BIT + 520),
      U 57 (Some ''fork'') (None) (Some H_forking) (SYSCALL_FORK_FORK),
      U 58 (Some ''vfork'') (None) (Some H_forking) (SYSCALL_FORK_VFORK),
      U 56 (Some ''clone'') (None) (Some H_forking) (SYSCALL_FORK_CLONE),
      U 43 (Some ''accept'') (None) (Some H_accept) (0),
      U 288 (Some ''accept4'') (None) (Some H_accept) (0),
      U 42 (Some ''connect'') (None) (Some H_connect) (0),
      U 258 (Some ''mkdirat'') (None) (Some H_xxx_at) (83),
      U 257 (Some ''openat'') (None) (Some H_xxx_at) (2),
      U 269 (Some ''faccessat'') (None) (Some H_xxx_at) (21),
      U 267 (Some ''readlinkat'') (None) (Some H_xxx_at) (89),
      U 262 (Some ''newfstatat'') (None) (Some H_xxx_at) (4),
      U 266 (Some ''symlinkat'') (None) (Some H_symlink) (1),
      U 82 (Some ''rename'') (None) (Some H_unhandled_path1) (0),
      U 84 (Some ''rmdir'') (None) (Some H_unhandled_path1) (0),
      U 86 (Some ''link'') (None) (Some H_unhandled_path1) (0),
      U 76 (Some ''truncate'') (None) (Some H_unhandled_path1) (0),
      U 87 (Some ''unlink'') (None) (Some H_unhandled_path1) (0),
      U 90 (Some ''chmod'') (None) (Some H_unhandled_path1) (0),
      U 92 (Some ''chown'') (None) (Some H_unhandled_path1) (0),
      U 94 (Some ''lchown'') (None) (Some H_unhandled_path1) (0),
      U 132 (Some ''utime'') (None) (Some H_unhandled_path1) (0),
      U 235 (Some ''utimes'') (None) (Some H_unhandled_path1) (0),
      U 240 (Some ''mq_open'') (None) (Some H_unhandled_path1) (0),
      U 241 (Some ''mq_unlink'') (None) (Some H_unhandled_path1) (0),
      U 265 (Some ''linkat'') (None) (Some H_unhandled_other) (0),
      U 264 (Some ''renameat'') (None) (Some H_unhandled_other) (0),
      U 263 (Some ''unlinkat'') (None) (Some H_unhandled_other) (0),
      U 268 (Some ''fchmodat'') (None) (Some H_unhandled_other) (0),
      U 260 (Some ''fchownat'') (None) (Some H_unhandled_other) (0),
      U 521 (Some ''ptrace'') (None) (Some H_unhandled_other) (0),
      U 303 (Some ''name_to_handle_at'') (None) (Some H_unhandled_other) (0),
      U 0 (None) (None) (None) (0)]"

definition syscall_tables :: "syscall_table list" where
  "syscall_tables = [process_table list_i386, process_table list_x86_64, process_table list_x32]"

definition syscall_type_of :: "Process \<Rightarrow> nat" where
  "syscall_type_of process =
     (if mode process = MODE_I386 then SYSCALL_I386
      else if current_syscall process AND X32_SYSCALL_BIT \<noteq> 0 then SYSCALL_X86_64_x32
      else SYSCALL_X86_64)"

subsection \<open>The *at variants\<close>

definition shift_args :: "64 word list \<Rightarrow> 64 word list" where
  "shift_args ps = fold (\<lambda>i a. a[i := a ! (i + 1)]) [0..<PROCESS_ARGS - 1] ps"

definition unshift_args :: "64 word \<Rightarrow> 64 word list \<Rightarrow> 64 word list" where
  "unshift_args arg0 ps =
     (fold (\<lambda>i a. a[i - 1 := a ! (i - 2)]) (rev [2..<PROCESS_ARGS + 1]) ps)[0 := arg0]"

definition at_level :: "Process \<Rightarrow> 32 word \<Rightarrow> nat" where
  "at_level process real_syscall =
     (let tbl = syscall_tables ! syscall_type_of process in
      if unat real_syscall < table_length tbl
         \<and> proc_exit (entries tbl ! unat real_syscall) = Some H_xxx_at then 1 else 0)"


subsection \<open>What the built tables hold\<close>

text \<open>
  \<open>listed orig i\<close> is the last live entry of the list with number \<open>i\<close>, which is what the
  copy loop of \<^verbatim>\<open>process_table\<close> leaves in slot \<open>i\<close>.
\<close>


definition to_entry :: "unprocessed_table_entry \<Rightarrow> syscall_table_entry" where
  "to_entry pos = \<lparr>name = uname pos, proc_entry = uproc_entry pos,
                    proc_exit = uproc_exit pos, udata = uudata pos\<rparr>"

definition listed :: "unprocessed_table_entry list \<Rightarrow> nat \<Rightarrow> syscall_table_entry" where
  "listed orig i = (case find (\<lambda>pos. n pos = i) (rev (takeWhile live orig)) of
                      None \<Rightarrow> null_entry | Some pos \<Rightarrow> to_entry pos)"

lemma find_snoc:
  "find P (xs @ [x]) = (case find P xs of None \<Rightarrow> (if P x then Some x else None) | Some y \<Rightarrow> Some y)"
  by (induction xs) auto

lemma fold_update_length: "length (fold (\<lambda>pos es. es[n pos := c pos]) L es) = length es"
  by (induction L arbitrary: es) auto

lemma fold_update_nth:
  "i < length es \<Longrightarrow>
   fold (\<lambda>pos es. es[n pos := c pos]) L es ! i =
     (case find (\<lambda>pos. n pos = i) (rev L) of None \<Rightarrow> es ! i | Some pos \<Rightarrow> c pos)"
proof (induction L arbitrary: es)
  case Nil
  then show ?case by simp
next
  case (Cons x L)
  then show ?case
    by (auto simp: find_snoc nth_list_update split: option.splits)
qed

lemma process_table_length: "length (entries (process_table orig)) = table_length (process_table orig)"
  by (simp add: process_table_def Let_def fold_update_length)

lemma process_table_nth:
  assumes "i < table_length (process_table orig)"
  shows "entries (process_table orig) ! i = listed orig i"
proof -
  define L where "L = takeWhile live orig"
  define len where "len = fold (\<lambda>pos l. if n pos + 1 > l then n pos + 1 else l) L 0"
  have i: "i < length (replicate len null_entry)"
    using assms by (simp add: process_table_def Let_def L_def len_def)
  have "entries (process_table orig) ! i = fold (\<lambda>pos es. es[n pos := to_entry pos]) L (replicate len null_entry) ! i"
    by (simp add: process_table_def Let_def L_def len_def to_entry_def)
  also have "\<dots> = (case find (\<lambda>pos. n pos = i) (rev L) of None \<Rightarrow> replicate len null_entry ! i | Some pos \<Rightarrow> to_entry pos)"
    by (rule fold_update_nth [OF i])
  also have "\<dots> = listed orig i"
    using i by (simp add: listed_def L_def split: option.splits)
  finally show ?thesis .
qed


lemma len_i386: "table_length (process_table list_i386) = 342" by code_simp
lemma len_x64: "table_length (process_table list_x86_64) = 304" by code_simp
lemma len_x32: "table_length (process_table list_x32) = 522" by code_simp

definition at_targets_ok :: "unprocessed_table_entry list \<Rightarrow> bool" where
  "at_targets_ok orig = list_all (\<lambda>pos. proc_exit (listed orig (unat (uudata pos))) \<noteq> Some H_xxx_at)
       (filter (\<lambda>pos. uproc_exit pos = Some H_xxx_at) (takeWhile live orig))"

lemma ok_i386: "at_targets_ok list_i386" by code_simp
lemma ok_x64: "at_targets_ok list_x86_64" by code_simp
lemma ok_x32: "at_targets_ok list_x32" by code_simp

lemma find_Some_set: "find P xs = Some x \<Longrightarrow> x \<in> set xs"
  by (induction xs) (auto split: if_splits)

lemma listed_cases:
  "listed orig i = null_entry \<or> (\<exists>pos \<in> set (takeWhile live orig). listed orig i = to_entry pos)"
proof (cases "find (\<lambda>pos. n pos = i) (rev (takeWhile live orig))")
  case None
  then show ?thesis by (simp add: listed_def)
next
  case (Some pos)
  then have "pos \<in> set (takeWhile live orig)"
    using find_Some_set by fastforce
  with Some show ?thesis by (auto simp: listed_def)
qed

lemma at_target_level:
  assumes ok: "at_targets_ok orig"
    and i: "i < table_length (process_table orig)"
    and at: "proc_exit (entries (process_table orig) ! i) = Some H_xxx_at"
    and j: "unat (udata (entries (process_table orig) ! i)) < table_length (process_table orig)"
  shows "proc_exit (entries (process_table orig) ! unat (udata (entries (process_table orig) ! i))) \<noteq> Some H_xxx_at"
proof -
  have e: "entries (process_table orig) ! i = listed orig i"
    by (rule process_table_nth [OF i])
  from listed_cases [of orig i] at e obtain pos
    where pos: "pos \<in> set (takeWhile live orig)" "listed orig i = to_entry pos"
    by (auto simp: null_entry_def)
  from at e pos have px: "uproc_exit pos = Some H_xxx_at" by (simp add: to_entry_def)
  from ok pos(1) px have "proc_exit (listed orig (unat (uudata pos))) \<noteq> Some H_xxx_at"
    by (auto simp: at_targets_ok_def list_all_iff)
  moreover have "udata (entries (process_table orig) ! i) = uudata pos"
    using e pos by (simp add: to_entry_def)
  ultimately show ?thesis using j by (simp add: process_table_nth)
qed


lemma syscall_type_cases:
  "syscall_tables ! syscall_type_of p = process_table list_i386
   \<or> syscall_tables ! syscall_type_of p = process_table list_x86_64
   \<or> syscall_tables ! syscall_type_of p = process_table list_x32"
  unfolding syscall_tables_def syscall_type_of_def SYSCALL_I386_def SYSCALL_X86_64_def SYSCALL_X86_64_x32_def
  by (cases "mode p = MODE_I386"; cases "current_syscall p AND X32_SYSCALL_BIT \<noteq> 0"; simp)

lemma at_level_target:
  assumes r: "unat r < table_length (syscall_tables ! syscall_type_of p)"
    and at: "proc_exit (entries (syscall_tables ! syscall_type_of p) ! unat r) = Some H_xxx_at"
  shows "at_level p (udata (entries (syscall_tables ! syscall_type_of p) ! unat r)) = 0"
proof -
  obtain orig where t: "syscall_tables ! syscall_type_of p = process_table orig"
    and ok: "at_targets_ok orig"
    using syscall_type_cases [of p] ok_i386 ok_x64 ok_x32 by blast
  show ?thesis
    using at_target_level [OF ok, of "unat r"] r at
    unfolding at_level_def Let_def t by auto
qed

lemma proc_upd_proc:
  "proc (upd_proc i f s) j = (if i = j \<and> i < length (processes s) then f (proc s j) else proc s j)"
proof (cases "i < length (processes s)")
  case True
  then show ?thesis by (simp add: proc_def upd_proc_def nth_list_update)
next
  case False
  then have "length (processes s) \<le> i" by simp
  then have "(processes s)[i := f (processes s ! i)] = processes s"
    by (rule list_update_beyond)
  with False show ?thesis by (simp add: proc_def upd_proc_def)
qed

lemma syscall_type_shift:
  "syscall_type_of (proc (upd_proc pi (\<lambda>p. p\<lparr>params := f (params p)\<rparr>) s) pi) = syscall_type_of (proc s pi)"
  by (simp add: proc_upd_proc syscall_type_of_def)

lemma at_level_shift:
  "at_level (proc (upd_proc pi (\<lambda>p. p\<lparr>params := f (params p)\<rparr>) s) pi) r = at_level (proc s pi) r"
  by (simp add: at_level_def syscall_type_shift)

text \<open>
  \<^verbatim>\<open>syscall_xxx_at\<close> calls the exit handler of another entry of the same table through
  a function pointer, which may be any handler; \<open>call_handler\<close> is that indirect call.
  The recursion ends because no *at entry of the tables names another *at entry.
\<close>

function syscall_xxx_at :: "env \<Rightarrow> string option \<Rightarrow> nat \<Rightarrow> 32 word \<Rightarrow> state \<Rightarrow> result"
  and call_handler :: "env \<Rightarrow> handler \<Rightarrow> string option \<Rightarrow> nat \<Rightarrow> 32 word \<Rightarrow> state \<Rightarrow> result"
  where
  "syscall_xxx_at E nm pi real_syscall s =
     (let process = proc s pi in
      if sint (params process ! 0) = AT_FDCWD
      then
        (let tbl = syscall_tables ! syscall_type_of process;
             invalid = Inr (0, emit (Log Critical (tid process) ''INVALID SYSCALL in *at dispatch: %d''
                                       [LInt (uint real_syscall)]) s)
         in if unat real_syscall < table_length tbl
            then (case proc_exit (entries tbl ! unat real_syscall) of
                    None \<Rightarrow> invalid
                  | Some h \<Rightarrow>
                      if name (entries tbl ! unat real_syscall) = None then invalid
                      else
                        (let arg0 = params process ! 0;
                             s1 = upd_proc pi (\<lambda>p. p\<lparr>params := shift_args (params p)\<rparr>) s
                         in case call_handler E h nm pi (udata (entries tbl ! unat real_syscall)) s1 of
                              Inl x \<Rightarrow> Inl x
                            | Inr (ret, s2) \<Rightarrow>
                                Inr (ret, upd_proc pi (\<lambda>p. p\<lparr>params := unshift_args arg0 (params p)\<rparr>) s2)))
            else invalid)
      else syscall_unhandled_other E nm pi 0 s)"
| "call_handler E h nm pi ud s =
     (case h of
        H_unhandled_path1 \<Rightarrow> syscall_unhandled_path1 E nm pi ud s
      | H_unhandled_other \<Rightarrow> syscall_unhandled_other E nm pi ud s
      | H_fileopening \<Rightarrow> syscall_fileopening E nm pi ud s
      | H_filestat \<Rightarrow> syscall_filestat E nm pi ud s
      | H_readlink \<Rightarrow> syscall_readlink E nm pi ud s
      | H_mkdir \<Rightarrow> syscall_mkdir E nm pi ud s
      | H_symlink \<Rightarrow> syscall_symlink E nm pi ud s
      | H_chdir \<Rightarrow> syscall_chdir E nm pi ud s
      | H_execve_in \<Rightarrow> syscall_execve_in E nm pi ud s
      | H_execve_out \<Rightarrow> syscall_execve_out E nm pi ud s
      | H_forking \<Rightarrow> syscall_forking E nm pi ud s
      | H_socketcall \<Rightarrow> syscall_socketcall E nm pi ud s
      | H_accept \<Rightarrow> syscall_accept E nm pi ud s
      | H_connect \<Rightarrow> syscall_connect E nm pi ud s
      | H_xxx_at \<Rightarrow> syscall_xxx_at E nm pi ud s)"
  by pat_completeness auto

termination
proof (relation "measure (\<lambda>x. case x of
         Inl (E, nm, pi, r, s) \<Rightarrow> 2 * at_level (proc s pi) r + 1
       | Inr (E, h, nm, pi, ud, s) \<Rightarrow> (if h = H_xxx_at then 2 * at_level (proc s pi) ud + 2 else 0))",
       goal_cases)
  case 1
  show ?case by simp
next
  case (2 E nm pi real_syscall s process tbl invalid h arg0 s1)
  show ?case
  proof (cases "h = H_xxx_at")
    case True
    with 2 have "at_level (proc s pi) (udata (entries tbl ! unat real_syscall)) = 0"
      using at_level_target [of real_syscall "proc s pi"] by simp
    moreover from True 2 have "at_level (proc s pi) real_syscall = 1"
      by (simp add: at_level_def)
    moreover from 2 have "s1 = upd_proc pi (\<lambda>p. p\<lparr>params := shift_args (params p)\<rparr>) s"
      by simp
    ultimately show ?thesis using True by (simp add: at_level_shift)
  next
    case False
    then show ?thesis by simp
  qed
next
  case (3 E h nm pi ud s)
  then show ?case by simp
qed

declare syscall_xxx_at.simps [simp del] call_handler.simps [simp del]


subsection \<open>Handle a syscall via the table\<close>

text \<open>
  The two execve workaround loops of \<^verbatim>\<open>syscall_handle\<close>: every registry slot that
  matches logs (at verbosity 3) and sets \<open>entry\<close>; there is no \<^verbatim>\<open>break\<close>.
\<close>

definition execve_workaround ::
  "env \<Rightarrow> nat \<Rightarrow> 32 word \<Rightarrow> nat \<Rightarrow> string \<Rightarrow> state \<Rightarrow> syscall_table_entry option \<times> state" where
  "execve_workaround E pi nr abi msg s =
     (let process = proc s pi;
          hits = filter (execve_caller process nr) (processes s)
      in (if hits = [] then None else Some (entries (syscall_tables ! abi) ! unat nr),
          fold (\<lambda>_. log_if (verbosity E \<ge> 3) (Log Debug (tid process) msg [])) hits s))"

definition resolve_entry ::
  "env \<Rightarrow> nat \<Rightarrow> 32 word \<Rightarrow> syscall_table \<Rightarrow> state
     \<Rightarrow> (error \<times> state) + (syscall_table_entry option \<times> state)" where
  "resolve_entry E pi syscall tbl s =
     (let process = proc s pi in
      if syscall = 59 \<and> in_syscall process
      then Inr (execve_workaround E pi 59 SYSCALL_X86_64
                  ''transition x64 -> i386, syscall 59 is still execve'' s)
      else if syscall = 11 \<and> in_syscall process
      then Inr (execve_workaround E pi 11 SYSCALL_I386
                  ''transition i386 -> x64, syscall 11 is still execve'' s)
      else if sint syscall \<ge> 0 \<or> unat (scast syscall :: 64 word) < table_length tbl
      then (if 0 \<le> sint syscall \<and> nat (sint syscall) < table_length tbl
            then Inr (Some (entries tbl ! nat (sint syscall)), s)
            else Inl (Out_of_bounds, s))
      else Inr (None, s))"

definition dispatch_entry :: "env \<Rightarrow> nat \<Rightarrow> syscall_table_entry \<Rightarrow> state \<Rightarrow> result" where
  "dispatch_entry E pi entry s =
     (let s1 = log_if (name entry \<noteq> None \<and> verbosity E \<ge> 3)
                 (Log Debug (tid (proc s pi)) ''%s()'' [LStr (the (name entry))]) s
      in if \<not> in_syscall (proc s1 pi) \<and> proc_entry entry \<noteq> None
         then call_handler E (the (proc_entry entry)) (name entry) pi (udata entry) s1
         else if in_syscall (proc s1 pi) \<and> proc_exit entry \<noteq> None
         then call_handler E (the (proc_exit entry)) (name entry) pi (udata entry) s1
         else Inr (0, s1))"

definition run_to_next_syscall :: "nat \<Rightarrow> 32 word \<Rightarrow> state \<Rightarrow> state" where
  "run_to_next_syscall pi tid0 s =
     emit (Ptrace_SYSCALL tid0)
       (if in_syscall (proc s pi)
        then upd_proc pi (\<lambda>p. p\<lparr>in_syscall := False, current_syscall := - 1,
                                  syscall_info := None\<rparr>) s
        else upd_proc pi (\<lambda>p. p\<lparr>in_syscall := True\<rparr>) s)"

definition syscall_handle :: "env \<Rightarrow> nat \<Rightarrow> state \<Rightarrow> result" where
  "syscall_handle E pi s =
     (let process = proc s pi;
          tid0 = tid process;
          syscall = current_syscall process AND NOT X32_SYSCALL_BIT;
          syscall_type = syscall_type_of process;
          s1 = log_if (verbosity E \<ge> 4)
                 (Log Debug (tid process)
                    (if syscall_type = SYSCALL_I386 then ''syscall %d (i386)''
                     else if syscall_type = SYSCALL_X86_64_x32 then ''syscall %d (x32)''
                     else ''syscall %d (x64)'') [LInt (sint syscall)]) s;
          tbl = syscall_tables ! syscall_type;
          s2 = log_if (sint syscall < 0 \<or> sint syscall \<ge> 2000)
                 (Log Error (tid process) ''INVALID SYSCALL %d'' [LInt (sint syscall)]) s1
      in case resolve_entry E pi syscall tbl s2 of
           Inl x \<Rightarrow> Inl x
         | Inr (entry, s3) \<Rightarrow>
             (case (case entry of None \<Rightarrow> Inr (0, s3) | Some e \<Rightarrow> dispatch_entry E pi e s3) of
                Inl x \<Rightarrow> Inl x
              | Inr (ret, s4) \<Rightarrow>
                  if ret \<noteq> 0 then Inr (- 1, s4)
                  else Inr (0, run_to_next_syscall pi tid0 s4)))"

text \<open>
  The part of \<^verbatim>\<open>syscall_handle\<close> up to its test \<^verbatim>\<open>if(ret != 0)\<close>: the value of
  \<^verbatim>\<open>ret\<close> there (what the dispatched handler returned, 0 when none was called) and the
  state the handler left.
\<close>

definition handler_outcome :: "env \<Rightarrow> nat \<Rightarrow> state \<Rightarrow> result" where
  "handler_outcome E pi s =
     (let process = proc s pi;
          syscall = current_syscall process AND NOT X32_SYSCALL_BIT;
          syscall_type = syscall_type_of process;
          s1 = log_if (verbosity E \<ge> 4)
                 (Log Debug (tid process)
                    (if syscall_type = SYSCALL_I386 then ''syscall %d (i386)''
                     else if syscall_type = SYSCALL_X86_64_x32 then ''syscall %d (x32)''
                     else ''syscall %d (x64)'') [LInt (sint syscall)]) s;
          tbl = syscall_tables ! syscall_type;
          s2 = log_if (sint syscall < 0 \<or> sint syscall \<ge> 2000)
                 (Log Error (tid process) ''INVALID SYSCALL %d'' [LInt (sint syscall)]) s1
      in case resolve_entry E pi syscall tbl s2 of
           Inl x \<Rightarrow> Inl x
         | Inr (entry, s3) \<Rightarrow>
             (case entry of None \<Rightarrow> Inr (0, s3) | Some e \<Rightarrow> dispatch_entry E pi e s3))"


subsection \<open>Concrete inputs\<close>

text \<open>An environment, a task and a registry used to run the model on concrete inputs.\<close>

definition env0 :: env where
  "env0 = \<lparr>verbosity = 0,
     tracee_strdup = (\<lambda>t a. if a = 0x1000 then ''out'' else if a = 0x2000 then ''/tmp'' else ''data.txt''),
     tracee_strarraydup = (\<lambda>m t a. if a = 0x3000 then [''ls'', ''-l''] else [''HOME=/home/u'']),
     tracee_mem = (\<lambda>t a. 0),
     tracee_getptr = (\<lambda>m t a. a),
     tracee_getlong = (\<lambda>m t a. 0),
     abspath = (\<lambda>w p. w @ ''/'' @ p),
     path_is_dir = (\<lambda>p. False),
     sink_fails = (\<lambda>tr e. False),
     sink_identifier = (\<lambda>tr e. 1000 + of_nat (length tr)),
     trace_count_processes = (\<lambda>ps. (length ps, 0))\<rparr>"

definition task :: "32 word \<Rightarrow> 32 word \<Rightarrow> 32 word \<Rightarrow> 64 word \<Rightarrow> 64 word list \<Rightarrow> Process" where
  "task t g nr r ps = \<lparr>identifier = t + 1, mode = MODE_X86_64, tid = t, tgid = g,
     status = PROCESS_ATTACHED, in_syscall = True, current_syscall = nr, retvalue = r,
     params = ps, syscall_info = None, wd = ''/home/u''\<rparr>"

definition st :: "Process list \<Rightarrow> state" where
  "st ps = \<lparr>processes = ps, trace = []\<rparr>"

text \<open>An environment whose sink and proc scraper report failure on every call.\<close>

definition env_sink_down :: env where
  "env_sink_down = env0\<lparr>sink_fails := (\<lambda>h e. True)\<rparr>"

text \<open>Task 101, a thread of group 100, inside execve of \<^verbatim>\<open>/bin/ls\<close>.\<close>

definition caller101 :: Process where
  "caller101 = (task 101 100 59 0 [0x1000, 0x3000, 0x3008, 0, 0, 0])
     \<lparr>syscall_info := Some \<lparr>binary = ''/bin/ls'', argv = [''ls'', ''-l''], envp = [''HOME=/home/u'']\<rparr>\<rparr>"

text \<open>Environments in which only \<open>add_exec\<close>, or only the proc scraper, reports failure.\<close>

definition exec_event :: "event \<Rightarrow> bool" where
  "exec_event e = (case e of Db_add_exec _ _ _ _ _ \<Rightarrow> True | _ \<Rightarrow> False)"

definition scraper_event :: "event \<Rightarrow> bool" where
  "scraper_event e = (case e of Add_files_from_proc _ _ _ \<Rightarrow> True | _ \<Rightarrow> False)"

definition env_exec_down :: env where
  "env_exec_down = env0\<lparr>sink_fails := (\<lambda>h e. exec_event e)\<rparr>"

definition env_scraper_down :: env where
  "env_scraper_down = env0\<lparr>sink_fails := (\<lambda>h e. scraper_event e)\<rparr>"

subsection \<open>Observations on states and results\<close>

text \<open>The sink events in the state a handler ends in, whatever its return code.\<close>

definition events_of :: "result \<Rightarrow> event list" where
  "events_of r = (case r of Inl (_, s) \<Rightarrow> sink_events s | Inr (_, s) \<Rightarrow> sink_events s)"

text \<open>What \<^verbatim>\<open>syscall_fileopening\<close> emits for \<^verbatim>\<open>open\<close>, from the registers it reads.\<close>

definition open_events :: "env \<Rightarrow> Process \<Rightarrow> 64 word \<Rightarrow> 64 word \<Rightarrow> event list" where
  "open_events E p path flags =
     (if sint (retvalue p) \<ge> 0
      then [Db_add_file_open (identifier p)
              (abs_path_arg E (p\<lparr>params := [path]\<rparr>) 0)
              (flags2mode flags)
              (path_is_dir E (abs_path_arg E (p\<lparr>params := [path]\<rparr>) 0))]
      else [])"

text \<open>
  What a handler must leave alone in the task \<open>pi\<close> it runs on: the slot stays in the
  registry, the register snapshot is as before and, if the slot was in use, so is the
  \<open>in_syscall\<close> flag.
\<close>

definition keeps :: "nat \<Rightarrow> state \<Rightarrow> state \<Rightarrow> bool" where
  "keeps pi s s' \<longleftrightarrow> pi < length (processes s')
     \<and> params (proc s' pi) = params (proc s pi)
     \<and> (status (proc s pi) \<noteq> PROCESS_FREE \<longrightarrow> in_syscall (proc s' pi) = in_syscall (proc s pi))"

text \<open>
  The last outward call of a state is a call to the event sink or the proc scraper, or
  a critical log: what a handler does last before it returns non-zero.
\<close>

definition ended_in_failure :: "state \<Rightarrow> bool" where
  "ended_in_failure s \<longleftrightarrow> trace s \<noteq> [] \<and> (is_sink_event (last (trace s)) \<or> is_critical (last (trace s)))"

section \<open>Properties\<close>

subsection \<open>State helpers\<close>

lemma sink_events_emit:
  "sink_events (emit e s) = sink_events s @ (if is_sink_event e then [e] else [])"
  by (simp add: sink_events_def emit_def)

lemma sink_events_upd_proc [simp]: "sink_events (upd_proc i f s) = sink_events s"
  by (simp add: sink_events_def upd_proc_def)

lemma length_upd_proc [simp]: "length (processes (upd_proc i f s)) = length (processes s)"
  by (simp add: upd_proc_def)

lemma proc_emit [simp]: "proc (emit e s) i = proc s i"
  by (simp add: proc_def emit_def)

lemma processes_emit [simp]: "processes (emit e s) = processes s"
  by (simp add: emit_def)

subsection \<open>Sockets\<close>

text \<open>
  C10. On an accept or accept4 exit the address length is the 32-bit value read from
  tracee memory at the pointer in the third argument; on a connect exit it is the third
  argument itself, taken as a \<^verbatim>\<open>socklen_t\<close>. If that length is below
  \<^verbatim>\<open>sizeof(short)\<close> = 2, the handler returns 0 and leaves the state as it was: no
  warning, no event.
\<close>

theorem short_sockaddr_silent:
  "(unat (le32 (tracee_read E (tid (proc s pi)) (params (proc s pi) ! 2) 4)) < sizeof_short
      \<longrightarrow> syscall_accept E nm pi ud s = Inr (0, s))
   \<and> (unat (ucast (params (proc s pi) ! 2) :: 32 word) < sizeof_short
      \<longrightarrow> syscall_connect E nm pi ud s = Inr (0, s))"
  by (simp add: syscall_accept_def syscall_connect_def handle_accept_def handle_connect_def Let_def)

theorem short_sockaddr_silent_witness:
  "syscall_accept env0 (Some ''accept'') 0 0 (st [task 100 100 43 3 [3, 0x4000, 0x5000, 0, 0, 0]])
     = Inr (0, st [task 100 100 43 3 [3, 0x4000, 0x5000, 0, 0, 0]])
   \<and> syscall_connect env0 (Some ''connect'') 0 0 (st [task 100 100 42 0 [3, 0x4000, 1, 0, 0, 0]])
     = Inr (0, st [task 100 100 42 0 [3, 0x4000, 1, 0, 0, 0]])"
proof -
  have a: "unat (le32 (tracee_read env0 (tid (proc (st [task 100 100 43 3 [3, 0x4000, 0x5000, 0, 0, 0]]) 0))
              (params (proc (st [task 100 100 43 3 [3, 0x4000, 0x5000, 0, 0, 0]]) 0) ! 2) 4)) < sizeof_short"
    by (simp add: le32_def tracee_read_def env0_def sizeof_short_def)
  have b: "unat (ucast (params (proc (st [task 100 100 42 0 [3, 0x4000, 1, 0, 0, 0]]) 0) ! 2) :: 32 word) < sizeof_short"
    by (simp add: proc_def st_def task_def sizeof_short_def)
  from a b
    short_sockaddr_silent [of env0 "st [task 100 100 43 3 [3, 0x4000, 0x5000, 0, 0, 0]]" 0 "Some ''accept''" 0]
    short_sockaddr_silent [of env0 "st [task 100 100 42 0 [3, 0x4000, 1, 0, 0, 0]]" 0 "Some ''connect''" 0]
  show ?thesis by blast
qed

subsection \<open>chdir\<close>

text \<open>
  C8. On a chdir exit with \<open>retvalue \<ge> 0\<close>, where \<open>p\<close> is the string read from the tracee
  at argument 0: the task's wd becomes \<open>p\<close> itself when \<open>p\<close> begins with a slash, and
  otherwise \<open>abspath\<close> of the old wd and \<open>p\<close>; exactly one sink event is added,
  \<open>add_file_open(identifier, new wd, FILE_WDIR, is_dir = true)\<close>, and the handler returns
  the sink's verdict. With \<open>retvalue < 0\<close> the handler returns 0 with the state (wd and
  trace) unchanged.
\<close>

theorem chdir_exit:
  assumes "pi < length (processes s)"
    and "p = tracee_strdup E (tid (proc s pi)) (params (proc s pi) ! 0)"
    and "new_wd = (if p \<noteq> [] \<and> hd p = CHR ''/'' then p else abspath E (wd (proc s pi)) p)"
  shows "(sint (retvalue (proc s pi)) \<ge> 0 \<longrightarrow>
           (\<exists>r s'. syscall_chdir E nm pi ud s = Inr (r, s')
              \<and> r = (if sink_fails E (sink_events s)
                           (Db_add_file_open (identifier (proc s pi)) new_wd FILE_WDIR True)
                      then - 1 else 0)
              \<and> wd (proc s' pi) = new_wd
              \<and> sink_events s' = sink_events s @
                   [Db_add_file_open (identifier (proc s pi)) new_wd FILE_WDIR True]))
       \<and> (sint (retvalue (proc s pi)) < 0 \<longrightarrow> syscall_chdir E nm pi ud s = Inr (0, s))"
proof -
  have a: "abs_path_arg E (proc s pi) 0 = new_wd"
    unfolding assms(3) assms(2) abs_path_arg_def Let_def by (auto split: list.splits)
  show ?thesis
    using assms(1) a
    by (simp add: syscall_chdir_def Let_def sink_call_def proc_upd_proc sink_events_emit
        is_sink_event_def)
qed

theorem chdir_exit_witness:
  "(\<exists>r s'. syscall_chdir env0 (Some ''chdir'') 0 0 (st [task 100 100 80 0 [0x1000, 0, 0, 0, 0, 0]]) = Inr (r, s')
      \<and> r = 0 \<and> wd (proc s' 0) = ''/home/u/out''
      \<and> sink_events s' = [Db_add_file_open 101 ''/home/u/out'' FILE_WDIR True])
   \<and> (\<exists>r s'. syscall_chdir env0 (Some ''chdir'') 0 0 (st [task 100 100 80 0 [0x2000, 0, 0, 0, 0, 0]]) = Inr (r, s')
      \<and> r = 0 \<and> wd (proc s' 0) = ''/tmp''
      \<and> sink_events s' = [Db_add_file_open 101 ''/tmp'' FILE_WDIR True])
   \<and> syscall_chdir env0 (Some ''chdir'') 0 0 (st [task 100 100 80 (- 2) [0x2000, 0, 0, 0, 0, 0]])
       = Inr (0, st [task 100 100 80 (- 2) [0x2000, 0, 0, 0, 0, 0]])"
proof -
  let ?a = "st [task 100 100 80 0 [0x1000, 0, 0, 0, 0, 0]]"
  let ?b = "st [task 100 100 80 0 [0x2000, 0, 0, 0, 0, 0]]"
  let ?c = "st [task 100 100 80 (- 2) [0x2000, 0, 0, 0, 0, 0]]"
  have a: "0 < length (processes ?a)"
    "''out'' = tracee_strdup env0 (tid (proc ?a 0)) (params (proc ?a 0) ! 0)"
    "''/home/u/out'' = (if ''out'' \<noteq> [] \<and> hd ''out'' = CHR ''/'' then ''out''
                        else abspath env0 (wd (proc ?a 0)) ''out'')"
    by (simp_all add: st_def task_def proc_def env0_def)
  have b: "0 < length (processes ?b)"
    "''/tmp'' = tracee_strdup env0 (tid (proc ?b 0)) (params (proc ?b 0) ! 0)"
    "''/tmp'' = (if ''/tmp'' \<noteq> [] \<and> hd ''/tmp'' = CHR ''/'' then ''/tmp''
                 else abspath env0 (wd (proc ?b 0)) ''/tmp'')"
    by (simp_all add: st_def task_def proc_def env0_def)
  have c: "0 < length (processes ?c)"
    "''/tmp'' = tracee_strdup env0 (tid (proc ?c 0)) (params (proc ?c 0) ! 0)"
    "''/tmp'' = (if ''/tmp'' \<noteq> [] \<and> hd ''/tmp'' = CHR ''/'' then ''/tmp''
                 else abspath env0 (wd (proc ?c 0)) ''/tmp'')"
    by (simp_all add: st_def task_def proc_def env0_def)
  have v: "sint (retvalue (proc ?a 0)) \<ge> 0" "sint (retvalue (proc ?b 0)) \<ge> 0"
    "sint (retvalue (proc ?c 0)) < 0"
    "sink_events ?a = []" "sink_events ?b = []"
    "identifier (proc ?a 0) = 101" "identifier (proc ?b 0) = 101"
    "\<And>h e. sink_fails env0 h e = False"
    by (simp_all add: st_def task_def proc_def env0_def sink_events_def)
  from chdir_exit [OF a, of "Some ''chdir''" 0] chdir_exit [OF b, of "Some ''chdir''" 0]
       chdir_exit [OF c, of "Some ''chdir''" 0] v
  show ?thesis by simp
qed

subsection \<open>File opening\<close>

lemma tables_nth:
  "syscall_tables ! SYSCALL_I386 = process_table list_i386"
  "syscall_tables ! SYSCALL_X86_64 = process_table list_x86_64"
  "syscall_tables ! SYSCALL_X86_64_x32 = process_table list_x32"
  by (simp_all add: syscall_tables_def SYSCALL_I386_def SYSCALL_X86_64_def SYSCALL_X86_64_x32_def)

lemma creat_flags: "flags2mode (x OR O_CREAT OR O_WRONLY OR O_TRUNC) = FILE_WRITE"
proof -
  have b: "bit ((x OR O_CREAT OR O_WRONLY OR O_TRUNC) AND O_ACCMODE) 0"
    by (simp add: bit_simps O_CREAT_def O_WRONLY_def O_TRUNC_def O_ACCMODE_def)
  have "(x OR O_CREAT OR O_WRONLY OR O_TRUNC) AND O_ACCMODE \<noteq> O_RDONLY"
    using b by (auto simp: O_RDONLY_def)
  moreover have "(x OR O_CREAT OR O_WRONLY OR O_TRUNC) AND O_ACCMODE \<noteq> O_RDWR"
    using b by (auto simp: O_RDWR_def)
  moreover have "(x OR O_CREAT OR O_WRONLY OR O_TRUNC) AND O_CREAT \<noteq> 0"
  proof
    assume "(x OR O_CREAT OR O_WRONLY OR O_TRUNC) AND O_CREAT = 0"
    then have "\<not> bit ((x OR O_CREAT OR O_WRONLY OR O_TRUNC) AND O_CREAT) 6" by simp
    then show False by (simp add: bit_simps O_CREAT_def O_WRONLY_def O_TRUNC_def)
  qed
  ultimately show ?thesis by (simp add: flags2mode_def Let_def)
qed

text \<open>
  The creat example of the specification asks for the mode \<open>FILE_READ|FILE_WRITE\<close>. With
  the flag mapping as stated, the handler emits another event for \<^verbatim>\<open>creat(out, 0644)\<close>
  returning 4 on a task with wd \<^verbatim>\<open>/home/u\<close>.
\<close>

theorem creat_counterexample:
  "events_of (syscall_fileopening env0 (Some ''creat'') 0 SYSCALL_OPENING_CREAT
               (st [task 100 100 85 4 [0x1000, 0x1A4, 0, 0, 0, 0]]))
   \<noteq> [Db_add_file_open 101 ''/home/u/out'' (FILE_READ OR FILE_WRITE) False]"
  by (simp add: syscall_fileopening_def Let_def creat_flags events_of_def sink_call_def log_if_def
      env0_def st_def task_def proc_def abs_path_arg_def sink_events_def emit_def is_sink_event_def
      SYSCALL_OPENING_CREAT_def SYSCALL_OPENING_ACCESS_def FILE_READ_def FILE_WRITE_def)

text \<open>
  C5, as amended. With the creat discriminator the handler emits one
  \<open>add_file_open\<close> whose mode is \<open>flags2mode\<close> of the second register argument
  unioned with \<open>O_CREAT|O_WRONLY|O_TRUNC\<close>; \<open>flags2mode\<close> gives FILE_READ exactly when the
  access mode is RDONLY or RDWR and FILE_WRITE exactly when it is WRONLY or RDWR or
  O_CREAT or O_TRUNC is set; and \<^verbatim>\<open>creat(out, 0644)\<close> returning 4 on a task with wd
  \<^verbatim>\<open>/home/u\<close> emits \<open>add_file_open(id, /home/u/out, FILE_WRITE, false)\<close>: the union
  sets the O_WRONLY bit, so the access mode is never RDONLY or RDWR.
\<close>

theorem creat_mode:
  "(sint (retvalue (proc s pi)) \<ge> 0 \<longrightarrow>
      events_of (syscall_fileopening E nm pi SYSCALL_OPENING_CREAT s) =
        sink_events s @
        [Db_add_file_open (identifier (proc s pi)) (abs_path_arg E (proc s pi) 0)
           (flags2mode (params (proc s pi) ! 1 OR O_CREAT OR O_WRONLY OR O_TRUNC))
           (path_is_dir E (abs_path_arg E (proc s pi) 0))])
   \<and> ((flags2mode f AND FILE_READ \<noteq> 0)
        = (f AND O_ACCMODE = O_RDONLY \<or> f AND O_ACCMODE = O_RDWR))
   \<and> ((flags2mode f AND FILE_WRITE \<noteq> 0)
        = (f AND O_ACCMODE = O_WRONLY \<or> f AND O_ACCMODE = O_RDWR
           \<or> f AND O_CREAT \<noteq> 0 \<or> f AND O_TRUNC \<noteq> 0))
   \<and> (retvalue (proc s pi) = 4 \<and> wd (proc s pi) = ''/home/u''
        \<and> tracee_strdup E (tid (proc s pi)) (params (proc s pi) ! 0) = ''out''
        \<and> params (proc s pi) ! 1 = 0x1A4
        \<and> abspath E ''/home/u'' ''out'' = ''/home/u/out'' \<and> \<not> path_is_dir E ''/home/u/out''
      \<longrightarrow> events_of (syscall_fileopening E nm pi SYSCALL_OPENING_CREAT s) =
            sink_events s @ [Db_add_file_open (identifier (proc s pi)) ''/home/u/out'' FILE_WRITE False])"
proof (intro conjI impI)
  assume "sint (retvalue (proc s pi)) \<ge> 0"
  then show "events_of (syscall_fileopening E nm pi SYSCALL_OPENING_CREAT s) =
        sink_events s @
        [Db_add_file_open (identifier (proc s pi)) (abs_path_arg E (proc s pi) 0)
           (flags2mode (params (proc s pi) ! 1 OR O_CREAT OR O_WRONLY OR O_TRUNC))
           (path_is_dir E (abs_path_arg E (proc s pi) 0))]"
    by (simp add: syscall_fileopening_def Let_def events_of_def sink_call_def log_if_def
        sink_events_emit is_sink_event_def
        SYSCALL_OPENING_CREAT_def SYSCALL_OPENING_ACCESS_def)
next
  show "(flags2mode f AND FILE_READ \<noteq> 0)
        = (f AND O_ACCMODE = O_RDONLY \<or> f AND O_ACCMODE = O_RDWR)"
    by (simp add: flags2mode_def Let_def FILE_READ_def FILE_WRITE_def)
next
  show "(flags2mode f AND FILE_WRITE \<noteq> 0)
        = (f AND O_ACCMODE = O_WRONLY \<or> f AND O_ACCMODE = O_RDWR
           \<or> f AND O_CREAT \<noteq> 0 \<or> f AND O_TRUNC \<noteq> 0)"
    by (simp add: flags2mode_def Let_def FILE_READ_def FILE_WRITE_def)
next
  assume a: "retvalue (proc s pi) = 4 \<and> wd (proc s pi) = ''/home/u''
        \<and> tracee_strdup E (tid (proc s pi)) (params (proc s pi) ! 0) = ''out''
        \<and> params (proc s pi) ! 1 = 0x1A4
        \<and> abspath E ''/home/u'' ''out'' = ''/home/u/out'' \<and> \<not> path_is_dir E ''/home/u/out''"
  then have p: "abs_path_arg E (proc s pi) 0 = ''/home/u/out''"
    by (simp add: abs_path_arg_def)
  from a show "events_of (syscall_fileopening E nm pi SYSCALL_OPENING_CREAT s) =
            sink_events s @ [Db_add_file_open (identifier (proc s pi)) ''/home/u/out'' FILE_WRITE False]"
    by (simp add: syscall_fileopening_def Let_def events_of_def sink_call_def log_if_def
        sink_events_emit is_sink_event_def p creat_flags
        SYSCALL_OPENING_CREAT_def SYSCALL_OPENING_ACCESS_def)
qed

theorem creat_mode_witness:
  "events_of (syscall_fileopening env0 (Some ''creat'') 0 SYSCALL_OPENING_CREAT
               (st [task 100 100 85 4 [0x1000, 0x1A4, 0, 0, 0, 0]]))
   = [Db_add_file_open 101 ''/home/u/out'' FILE_WRITE False]"
proof -
  let ?s = "st [task 100 100 85 4 [0x1000, 0x1A4, 0, 0, 0, 0]]"
  have hyp: "retvalue (proc ?s 0) = 4 \<and> wd (proc ?s 0) = ''/home/u''
        \<and> tracee_strdup env0 (tid (proc ?s 0)) (params (proc ?s 0) ! 0) = ''out''
        \<and> params (proc ?s 0) ! 1 = 0x1A4
        \<and> abspath env0 ''/home/u'' ''out'' = ''/home/u/out'' \<and> \<not> path_is_dir env0 ''/home/u/out''"
    by (simp add: st_def task_def proc_def env0_def)
  have "events_of (syscall_fileopening env0 (Some ''creat'') 0 SYSCALL_OPENING_CREAT ?s) =
          sink_events ?s @ [Db_add_file_open (identifier (proc ?s 0)) ''/home/u/out'' FILE_WRITE False]"
    using creat_mode [of ?s 0 env0 "Some ''creat''" 0] hyp by blast
  moreover have "sink_events ?s = []" "identifier (proc ?s 0) = 101"
    by (simp_all add: st_def task_def proc_def sink_events_def)
  ultimately show ?thesis by simp
qed


subsection \<open>Out-of-range syscall numbers\<close>

text \<open>
  C1. The claim: with the x32 bit stripped to index n, an index \<open>n < 0\<close> or \<open>n \<ge> 2000\<close> is
  logged and the task resumed without dispatch, and index 1999 reads nothing outside
  the table. The code: \<^verbatim>\<open>syscall_handle\<close> logs index 2000 and goes on; its bounds test
  \<^verbatim>\<open>syscall >= 0 || (size_t)syscall < tbl->length\<close> lets every non-negative index
  through, and the x86-64 table has 304 entries. On an x86-64 task at syscall entry,
  indices 2000 and 1999 both end in a read past the end of the table, and the task is
  not resumed.
\<close>

theorem syscall_handle_reads_past_table:
  "syscall_handle env0 0 (st [(task 100 100 2000 0 [0, 0, 0, 0, 0, 0])\<lparr>in_syscall := False\<rparr>])
   = Inl (Out_of_bounds,
          \<lparr>processes = [(task 100 100 2000 0 [0, 0, 0, 0, 0, 0])\<lparr>in_syscall := False\<rparr>],
           trace = [Log Error 100 ''INVALID SYSCALL %d'' [LInt 2000]]\<rparr>)
   \<and> syscall_handle env0 0 (st [(task 100 100 1999 0 [0, 0, 0, 0, 0, 0])\<lparr>in_syscall := False\<rparr>])
   = Inl (Out_of_bounds, st [(task 100 100 1999 0 [0, 0, 0, 0, 0, 0])\<lparr>in_syscall := False\<rparr>])"
  by (simp add: syscall_handle_def Let_def resolve_entry_def log_if_def emit_def st_def task_def
      proc_def env0_def syscall_type_of_def X32_SYSCALL_BIT_def tables_nth len_x64)

subsection \<open>execve exit with no recorded call\<close>

text \<open>
  C2. The claim: an execve exit on a task whose \<open>syscall_info\<close> is null, with no task of
  the registry matching the search, logs a critical error and fails without emitting
  \<open>add_exit\<close>, \<open>add_exec\<close> or \<open>add_files_from_proc\<close>. The code: \<^verbatim>\<open>exec_process\<close> starts as
  \<^verbatim>\<open>process\<close>, so the test \<^verbatim>\<open>exec_process == NULL\<close> after the search never holds; the
  handler emits \<open>add_exit\<close> for the task itself, frees its wd, marks it FREE and then
  dereferences the null scratch.
\<close>

theorem execve_out_unrecorded_call:
  "syscall_execve_out env0 (Some ''execve'') 0 (X32_SYSCALL_BIT + 520)
     (st [task 100 100 (X32_SYSCALL_BIT + 520) 0 [0x1000, 0x3000, 0x3008, 0, 0, 0]])
   = Inl (Null_deref,
          \<lparr>processes = [(task 100 100 (X32_SYSCALL_BIT + 520) 0 [0x1000, 0x3000, 0x3008, 0, 0, 0])
                         \<lparr>status := PROCESS_FREE\<rparr>],
           trace = [Db_add_exit 101 0, Mem_free (Wd 0)]\<rparr>)"
  by (simp add: syscall_execve_out_def Let_def execve_caller_def sink_call_def emit_def upd_proc_def
      st_def task_def proc_def env0_def)


subsection \<open>What a handler leaves alone\<close>

text \<open>
  No handler writes the register snapshot of the task it runs on, except the *at
  wrapper, which restores it; and no handler writes the \<open>in_syscall\<close> flag of a task whose
  slot is in use (\<^verbatim>\<open>syscall_forking\<close> clears the flag of the slot it allocates).
\<close>

lemma keeps_refl: "pi < length (processes s) \<Longrightarrow> keeps pi s s"
  by (simp add: keeps_def)

lemma keeps_emit: "keeps pi s s1 \<Longrightarrow> keeps pi s (emit e s1)"
  by (simp add: keeps_def)

lemma keeps_log_if: "keeps pi s s1 \<Longrightarrow> keeps pi s (log_if c e s1)"
  by (simp add: log_if_def keeps_emit)

lemma processes_log_if [simp]: "processes (log_if c e s) = processes s"
  by (simp add: log_if_def)

lemma proc_log_if [simp]: "proc (log_if c e s) i = proc s i"
  by (simp add: proc_def)

lemma processes_fold_emit [simp]: "processes (fold (\<lambda>v. emit (f v)) xs s) = processes s"
  by (induction xs arbitrary: s) simp_all

lemma processes_fold_log [simp]: "processes (fold (\<lambda>v. log_if c (f v)) xs s) = processes s"
  by (induction xs arbitrary: s) simp_all

lemma keeps_same_processes: "pi < length (processes s) \<Longrightarrow> processes s' = processes s \<Longrightarrow> keeps pi s s'"
  by (simp add: keeps_def proc_def)

lemma keeps_unhandled_path1:
  "syscall_unhandled_path1 E nm pi ud s = Inr (r, s') \<Longrightarrow> pi < length (processes s) \<Longrightarrow> keeps pi s s'"
  by (auto simp: syscall_unhandled_path1_def Let_def intro!: keeps_same_processes split: if_splits)

lemma keeps_unhandled_other:
  "syscall_unhandled_other E nm pi ud s = Inr (r, s') \<Longrightarrow> pi < length (processes s) \<Longrightarrow> keeps pi s s'"
  by (auto simp: syscall_unhandled_other_def Let_def intro!: keeps_same_processes split: if_splits)

lemma keeps_fileopening:
  "syscall_fileopening E nm pi ud s = Inr (r, s') \<Longrightarrow> pi < length (processes s) \<Longrightarrow> keeps pi s s'"
  by (auto simp: syscall_fileopening_def Let_def sink_call_def intro!: keeps_same_processes split: if_splits)

lemma keeps_filestat:
  "syscall_filestat E nm pi ud s = Inr (r, s') \<Longrightarrow> pi < length (processes s) \<Longrightarrow> keeps pi s s'"
  by (auto simp: syscall_filestat_def Let_def sink_call_def intro!: keeps_same_processes split: if_splits)

lemma keeps_readlink:
  "syscall_readlink E nm pi ud s = Inr (r, s') \<Longrightarrow> pi < length (processes s) \<Longrightarrow> keeps pi s s'"
  by (auto simp: syscall_readlink_def Let_def sink_call_def intro!: keeps_same_processes split: if_splits)

lemma keeps_mkdir:
  "syscall_mkdir E nm pi ud s = Inr (r, s') \<Longrightarrow> pi < length (processes s) \<Longrightarrow> keeps pi s s'"
  by (auto simp: syscall_mkdir_def Let_def sink_call_def intro!: keeps_same_processes split: if_splits)

lemma keeps_symlink:
  "syscall_symlink E nm pi ud s = Inr (r, s') \<Longrightarrow> pi < length (processes s) \<Longrightarrow> keeps pi s s'"
  by (auto simp: syscall_symlink_def syscall_unhandled_other_def Let_def sink_call_def
      intro!: keeps_same_processes split: if_splits)

lemma keeps_chdir:
  "syscall_chdir E nm pi ud s = Inr (r, s') \<Longrightarrow> pi < length (processes s) \<Longrightarrow> keeps pi s s'"
  by (auto simp: syscall_chdir_def Let_def sink_call_def keeps_def proc_upd_proc split: if_splits)

lemma keeps_execve_in:
  "syscall_execve_in E nm pi ud s = Inr (r, s') \<Longrightarrow> pi < length (processes s) \<Longrightarrow> keeps pi s s'"
  by (auto simp: syscall_execve_in_def Let_def keeps_def proc_upd_proc proc_def upd_proc_def split: if_splits)

lemma keeps_accept:
  "syscall_accept E nm pi ud s = Inr (r, s') \<Longrightarrow> pi < length (processes s) \<Longrightarrow> keeps pi s s'"
  by (auto simp: syscall_accept_def handle_accept_def Let_def intro!: keeps_same_processes split: if_splits)

lemma keeps_connect:
  "syscall_connect E nm pi ud s = Inr (r, s') \<Longrightarrow> pi < length (processes s) \<Longrightarrow> keeps pi s s'"
  by (auto simp: syscall_connect_def handle_connect_def Let_def intro!: keeps_same_processes split: if_splits)

lemma keeps_socketcall:
  "syscall_socketcall E nm pi ud s = Inr (r, s') \<Longrightarrow> pi < length (processes s) \<Longrightarrow> keeps pi s s'"
  by (auto simp: syscall_socketcall_def handle_accept_def handle_connect_def Let_def
      intro!: keeps_same_processes split: if_splits)


lemma find_from_Some:
  "find_from P ps k = Some j \<Longrightarrow> k \<le> j \<and> j - k < length ps \<and> P (ps ! (j - k))"
proof (induction ps arbitrary: k)
  case Nil
  then show ?case by simp
next
  case (Cons p ps)
  show ?case
  proof (cases "P p")
    case True
    with Cons.prems show ?thesis by simp
  next
    case False
    with Cons.prems have "find_from P ps (Suc k) = Some j" by simp
    from Cons.IH [OF this] have a: "Suc k \<le> j" and b: "j - Suc k < length ps"
      and c: "P (ps ! (j - Suc k))" by simp_all
    from a have "j - k = Suc (j - Suc k)" by arith
    with a b c show ?thesis by simp
  qed
qed

lemma find_from_0_Some:
  "find_from P ps 0 = Some j \<Longrightarrow> j < length ps \<and> P (ps ! j)"
  using find_from_Some [of P ps 0 j] by simp

lemma keeps_execve_out_finish:
  "execve_out_finish E pi ep execi s = Inr (r, s') \<Longrightarrow> pi < length (processes s) \<Longrightarrow> keeps pi s s'"
  by (auto simp: execve_out_finish_def Let_def sink_call_def keeps_def proc_upd_proc
      split: if_splits)

lemma keeps_execve_out:
  assumes "syscall_execve_out E nm pi ud s = Inr (r, s')" and pi: "pi < length (processes s)"
  shows "keeps pi s s'"
proof (cases "syscall_info (proc s pi)")
  case (Some execi)
  with assms show ?thesis
    by (auto simp: syscall_execve_out_def Let_def dest: keeps_execve_out_finish)
next
  case None
  show ?thesis
  proof (cases "find_from (execve_caller (proc s pi) ud) (processes s) 0")
    case N: None
    with None assms show ?thesis
      by (auto simp: syscall_execve_out_def Let_def sink_call_def intro!: keeps_same_processes
          split: if_splits)
  next
    case (Some i)
    from find_from_0_Some [OF Some] have i: "i < length (processes s)"
      and "syscall_info (proc s i) \<noteq> None"
      by (simp_all add: execve_caller_def proc_def)
    with None have ne: "i \<noteq> pi" by auto
    from i obtain ei where ei: "syscall_info (proc s i) = Some ei"
      using \<open>syscall_info (proc s i) \<noteq> None\<close> by auto
    let ?s2 = "upd_proc i (\<lambda>p. p\<lparr>status := PROCESS_FREE\<rparr>)
                 (emit (Mem_free (Wd i)) (emit (Db_add_exit (identifier (proc s i)) 0) s))"
    show ?thesis
    proof (cases "sink_fails E (sink_events s) (Db_add_exit (identifier (proc s i)) 0)")
      case True
      with None Some assms show ?thesis
        by (auto simp: syscall_execve_out_def Let_def sink_call_def intro!: keeps_same_processes)
    next
      case False
      with None Some ei assms have "execve_out_finish E pi i ei ?s2 = Inr (r, s')"
        by (simp add: syscall_execve_out_def Let_def sink_call_def)
      from keeps_execve_out_finish [OF this] pi have "keeps pi ?s2 s'" by simp
      with ne show ?thesis by (simp add: keeps_def proc_upd_proc)
    qed
  qed
qed


lemma trace_find_process_Some:
  "trace_find_process ps t = Some j \<Longrightarrow> j < length ps \<and> status (ps ! j) \<noteq> PROCESS_FREE \<and> tid (ps ! j) = t"
  unfolding trace_find_process_def by (drule find_from_0_Some) simp

lemma trace_get_empty_process_cases:
  assumes "trace_get_empty_process s = (k, s2)"
  shows "trace s2 = trace s \<and>
         ((k < length (processes s) \<and> status (processes s ! k) = PROCESS_FREE \<and> s2 = s)
          \<or> (k = length (processes s) \<and> processes s2 = processes s @ [fresh_slot]))"
proof (cases "find_from (\<lambda>p. status p = PROCESS_FREE) (processes s) 0")
  case None
  with assms show ?thesis by (auto simp: trace_get_empty_process_def)
next
  case (Some i)
  from find_from_0_Some [OF Some] Some assms show ?thesis
    by (auto simp: trace_get_empty_process_def)
qed


lemma keeps_forking_register:
  "forking_register E pi th new s = Inr (r, s') \<Longrightarrow> pi < length (processes s) \<Longrightarrow> keeps pi s s'"
  by (auto simp: forking_register_def Let_def sink_call_def keeps_def proc_upd_proc split: if_splits)

lemma keeps_forking:
  assumes run: "syscall_forking E nm pi ud s = Inr (r, s')" and pi: "pi < length (processes s)"
  shows "keeps pi s s'"
proof (cases "sint (retvalue (proc s pi)) > 0")
  case False
  with run pi show ?thesis by (simp add: syscall_forking_def keeps_refl)
next
  case pos: True
  define new_tid where "new_tid = (ucast (retvalue (proc s pi)) :: 32 word)"
  show ?thesis
  proof (cases "trace_find_process (processes s) new_tid")
    case (Some j)
    from trace_find_process_Some [OF Some] have j: "j < length (processes s)" by simp
    show ?thesis
    proof (cases "status (proc s j) = PROCESS_UNKNOWN")
      case False
      with run pos Some pi show ?thesis
        by (auto simp: syscall_forking_def Let_def new_tid_def intro!: keeps_same_processes)
    next
      case True
      with run pos Some obtain th s3 where
        reg: "forking_register E pi th j s3 = Inr (r, s')"
        and s3: "processes s3 = (processes s)[j := (processes s ! j)\<lparr>status := PROCESS_ATTACHED\<rparr>]"
        by (auto simp: syscall_forking_def Let_def new_tid_def upd_proc_def)
      from s3 pi have "pi < length (processes s3)" by simp
      from keeps_forking_register [OF reg this] have "keeps pi s3 s'" .
      with s3 pi j show ?thesis
        by (auto simp: keeps_def proc_def nth_list_update)
    qed
  next
    case None
    obtain k s2 where g: "trace_get_empty_process (log_if (verbosity E \<ge> 2)
                    (Log Info new_tid
                       ''process created by %d via %s (thread: %s) (working directory: %s)''
                       [LInt (sint (tid (proc s pi))),
                        LStr (if ud = SYSCALL_FORK_FORK then ''fork()''
                              else if ud = SYSCALL_FORK_VFORK then ''vfork()'' else ''clone()''),
                        LStr (if ud = SYSCALL_FORK_CLONE \<and> params (proc s pi) ! 0 AND CLONE_THREAD \<noteq> 0 then ''yes'' else ''no''),
                        LStr (wd (proc s pi))]) s) = (k, s2)"
      by (cases "trace_get_empty_process (log_if (verbosity E \<ge> 2)
                    (Log Info new_tid
                       ''process created by %d via %s (thread: %s) (working directory: %s)''
                       [LInt (sint (tid (proc s pi))),
                        LStr (if ud = SYSCALL_FORK_FORK then ''fork()''
                              else if ud = SYSCALL_FORK_VFORK then ''vfork()'' else ''clone()''),
                        LStr (if ud = SYSCALL_FORK_CLONE \<and> params (proc s pi) ! 0 AND CLONE_THREAD \<noteq> 0 then ''yes'' else ''no''),
                        LStr (wd (proc s pi))]) s)") auto
    let ?s3 = "upd_proc k (\<lambda>p. p\<lparr>status := PROCESS_ALLOCATED, tid := new_tid, in_syscall := False\<rparr>) s2"
    from run pos None g obtain th where reg: "forking_register E pi th k ?s3 = Inr (r, s')"
      by (auto simp: syscall_forking_def Let_def new_tid_def)
    from trace_get_empty_process_cases [OF g]
    have c: "(k < length (processes s) \<and> status (processes s ! k) = PROCESS_FREE \<and> processes s2 = processes s)
          \<or> (k = length (processes s) \<and> processes s2 = processes s @ [fresh_slot])"
      by auto
    then have len: "pi < length (processes ?s3)" using pi by auto
    from keeps_forking_register [OF reg len] have k3: "keeps pi ?s3 s'" .
    from c pi have "params (proc ?s3 pi) = params (proc s pi)
        \<and> (status (proc s pi) \<noteq> PROCESS_FREE \<longrightarrow>
             in_syscall (proc ?s3 pi) = in_syscall (proc s pi) \<and> status (proc ?s3 pi) \<noteq> PROCESS_FREE)"
      by (cases "k = pi") (auto simp: proc_def upd_proc_def nth_list_update nth_append)
    with k3 show ?thesis by (auto simp: keeps_def)
  qed
qed


lemma shift_range: "[0..<PROCESS_ARGS - 1] = [0, 1, 2, 3, 4]"
  by (simp add: PROCESS_ARGS_def upt_rec)

lemma unshift_range: "rev [2..<PROCESS_ARGS + 1] = [6, 5, 4, 3, 2]"
  by (simp add: PROCESS_ARGS_def upt_rec)

lemma length_shift_args [simp]: "length (shift_args ps) = length ps"
  unfolding shift_args_def shift_range by simp

lemma shift_unshift:
  assumes "length ps = PROCESS_ARGS"
  shows "unshift_args (ps ! 0) (shift_args ps) = ps"
proof -
  from assms obtain a b c d e f where "ps = [a, b, c, d, e, f]"
    by (auto simp: PROCESS_ARGS_def length_Suc_conv numeral_eq_Suc)
  then show ?thesis
    unfolding shift_args_def unshift_args_def shift_range unshift_range by simp
qed

lemma keeps_xxx_at_and_call:
  "(\<forall>r s'. syscall_xxx_at E nm pi r0 s = Inr (r, s') \<longrightarrow> pi < length (processes s)
       \<longrightarrow> length (params (proc s pi)) = PROCESS_ARGS \<longrightarrow> keeps pi s s')"
  "(\<forall>r s'. call_handler E h nm pi ud s = Inr (r, s') \<longrightarrow> pi < length (processes s)
       \<longrightarrow> length (params (proc s pi)) = PROCESS_ARGS \<longrightarrow> keeps pi s s')"
proof (induction E nm pi r0 s and E h nm pi ud s rule: syscall_xxx_at_call_handler.induct)
  case (1 E nm pi real_syscall s)
  show ?case
  proof (intro allI impI)
    fix r s'
    assume run: "syscall_xxx_at E nm pi real_syscall s = Inr (r, s')"
      and pi: "pi < length (processes s)"
      and len: "length (params (proc s pi)) = PROCESS_ARGS"
    let ?tbl = "syscall_tables ! syscall_type_of (proc s pi)"
    let ?e = "entries ?tbl ! unat real_syscall"
    let ?s1 = "upd_proc pi (\<lambda>p. p\<lparr>params := shift_args (params p)\<rparr>) s"
    show "keeps pi s s'"
    proof (cases "sint (params (proc s pi) ! 0) = AT_FDCWD \<and> unat real_syscall < table_length ?tbl
                  \<and> proc_exit ?e \<noteq> None \<and> name ?e \<noteq> None")
      case False
      with run pi show ?thesis
        by (subst (asm) syscall_xxx_at.simps)
           (auto simp: Let_def syscall_unhandled_other_def intro!: keeps_same_processes
                 split: if_splits option.splits)
    next
      case True
      then obtain h where h: "proc_exit ?e = Some h" by auto
      from True h run obtain s2 where
        inner: "call_handler E h nm pi (udata ?e) ?s1 = Inr (r, s2)"
        and s': "s' = upd_proc pi (\<lambda>p. p\<lparr>params := unshift_args (params (proc s pi) ! 0) (params p)\<rparr>) s2"
        by (subst (asm) syscall_xxx_at.simps)
           (auto simp: Let_def split: sum.splits prod.splits)
      from pi len have p1: "pi < length (processes ?s1)"
        "length (params (proc ?s1 pi)) = PROCESS_ARGS"
        by (simp_all add: proc_upd_proc)
      from True h have "keeps pi ?s1 s2"
        using "1.IH" [OF refl _ refl refl _ h _ refl refl] inner p1 by auto
      with pi len s' show ?thesis
        by (simp add: keeps_def proc_upd_proc shift_unshift)
    qed
  qed
next
  case (2 E h nm pi ud s)
  show ?case
  proof (intro allI impI)
    fix r s'
    assume run: "call_handler E h nm pi ud s = Inr (r, s')"
      and pi: "pi < length (processes s)"
      and len: "length (params (proc s pi)) = PROCESS_ARGS"
    show "keeps pi s s'"
    proof (cases h)
      case H_xxx_at
      with run have "syscall_xxx_at E nm pi ud s = Inr (r, s')"
        by (subst (asm) call_handler.simps) simp
      with "2.IH" [OF H_xxx_at] pi len show ?thesis by blast
    qed (use run pi in \<open>auto simp: call_handler.simps
            dest: keeps_unhandled_path1 keeps_unhandled_other keeps_fileopening keeps_filestat
            keeps_readlink keeps_mkdir keeps_symlink keeps_chdir keeps_execve_in keeps_execve_out
            keeps_forking keeps_socketcall keeps_accept keeps_connect\<close>)
  qed
qed


subsection \<open>The *at wrapper restores the registers\<close>

text \<open>
  C7. For every task and every call of \<^verbatim>\<open>syscall_xxx_at\<close> with directory-fd equal to the
  AT_FDCWD sentinel, whatever entry \<open>real_syscall\<close> names: when the wrapper returns, every
  element of the task's \<open>params\<close> array equals its value before the call; and the left
  shift for the inner handler followed by the right shift and restoring argument 0 is
  the identity on an array of \<open>PROCESS_ARGS\<close> registers.
\<close>

theorem xxx_at_restores_params:
  "(pi < length (processes s) \<and> length (params (proc s pi)) = PROCESS_ARGS
      \<and> sint (params (proc s pi) ! 0) = AT_FDCWD
      \<and> syscall_xxx_at E nm pi real_syscall s = Inr (r, s')
    \<longrightarrow> (\<forall>i < PROCESS_ARGS. params (proc s' pi) ! i = params (proc s pi) ! i)
        \<and> length (params (proc s' pi)) = PROCESS_ARGS)
   \<and> (length ps = PROCESS_ARGS \<longrightarrow> unshift_args (ps ! 0) (shift_args ps) = ps)"
  using keeps_xxx_at_and_call(1) [of E nm pi real_syscall s] shift_unshift [of ps]
  by (auto simp: keeps_def)


subsection \<open>openat with the sentinel and open\<close>

lemma listed_x64_257:
  "listed list_x86_64 257 = \<lparr>name = Some ''openat'', proc_entry = None, proc_exit = Some H_xxx_at, udata = 2\<rparr>"
  by (simp add: listed_def list_x86_64_def U_def live_def to_entry_def)

lemma listed_x64_2:
  "listed list_x86_64 2 = \<lparr>name = Some ''open'', proc_entry = None, proc_exit = Some H_fileopening,
                             udata = SYSCALL_OPENING_OPEN\<rparr>"
  by (simp add: listed_def list_x86_64_def U_def live_def to_entry_def)

lemma x64_entry: "i < 304 \<Longrightarrow> entries (process_table list_x86_64) ! i = listed list_x86_64 i"
  by (simp add: process_table_nth len_x64)

lemma sink_events_log_if [simp]: "sink_events (log_if c (Log l t f a) s) = sink_events s"
  by (simp add: log_if_def sink_events_emit is_sink_event_def)

lemma log_if_False [simp]: "log_if False e s = s"
  by (simp add: log_if_def)

lemma sink_events_ptrace [simp]: "sink_events (emit (Ptrace_SYSCALL t) s) = sink_events s"
  by (simp add: sink_events_emit is_sink_event_def)

lemma sink_events_run_to_next [simp]: "sink_events (run_to_next_syscall pi t s) = sink_events s"
  by (simp add: run_to_next_syscall_def)

lemma abs_path_arg_first:
  "params p ! 0 = path \<Longrightarrow> abs_path_arg E (p\<lparr>params := [path]\<rparr>) 0 = abs_path_arg E p 0"
  by (auto simp: abs_path_arg_def Let_def split: list.splits)

lemma abs_path_arg_cong:
  "tid p = tid q \<Longrightarrow> wd p = wd q \<Longrightarrow> params p ! i = params q ! i
     \<Longrightarrow> abs_path_arg E p i = abs_path_arg E q i"
  by (auto simp: abs_path_arg_def Let_def split: list.splits)

lemma open_events_cong:
  assumes "tid p = tid q" "wd p = wd q" "identifier p = identifier q" "retvalue p = retvalue q"
  shows "open_events E p path flags = open_events E q path flags"
proof -
  have "abs_path_arg E (p\<lparr>params := [path]\<rparr>) 0 = abs_path_arg E (q\<lparr>params := [path]\<rparr>) 0"
    using assms by (intro abs_path_arg_cong) simp_all
  with assms show ?thesis by (simp add: open_events_def)
qed

lemma fileopening_open_events:
  assumes "params (proc s pi) ! 0 = path" "params (proc s pi) ! 1 = flags"
  shows "events_of (syscall_fileopening E nm pi SYSCALL_OPENING_OPEN s)
         = sink_events s @ open_events E (proc s pi) path flags"
  using assms
  by (simp add: syscall_fileopening_def Let_def events_of_def sink_call_def open_events_def
      abs_path_arg_first sink_events_emit is_sink_event_def
      SYSCALL_OPENING_OPEN_def SYSCALL_OPENING_ACCESS_def SYSCALL_OPENING_CREAT_def)

lemma events_of_handle_result:
  "events_of (case r of Inl x \<Rightarrow> Inl x
              | Inr (ret, s4) \<Rightarrow> if ret \<noteq> 0 then Inr (- 1, s4) else Inr (0, run_to_next_syscall pi t s4))
   = events_of r"
  by (auto simp: events_of_def split: sum.splits prod.splits)

lemma events_of_at_result:
  "events_of (case r of Inl x \<Rightarrow> Inl x | Inr (ret, s2) \<Rightarrow> Inr (ret, upd_proc pi f s2)) = events_of r"
  by (auto simp: events_of_def split: sum.splits prod.splits)

lemma handle_open_events:
  assumes pi: "pi < length (processes s)"
    and m: "mode (proc s pi) = MODE_X86_64" and i: "in_syscall (proc s pi)"
    and c: "current_syscall (proc s pi) = 2"
    and a: "params (proc s pi) ! 0 = path" "params (proc s pi) ! 1 = flags"
  shows "events_of (syscall_handle E pi s) = sink_events s @ open_events E (proc s pi) path flags"
proof -
  have t: "syscall_type_of (proc s pi) = SYSCALL_X86_64"
    using m c by (simp add: syscall_type_of_def X32_SYSCALL_BIT_def)
  have n: "current_syscall (proc s pi) AND NOT X32_SYSCALL_BIT = 2"
    using c by (simp add: X32_SYSCALL_BIT_def)
  show ?thesis
    unfolding syscall_handle_def Let_def t n tables_nth
    using i a
    by (simp add: resolve_entry_def dispatch_entry_def len_x64 x64_entry listed_x64_2
        events_of_handle_result call_handler.simps fileopening_open_events)
qed


lemma shift_args_6: "shift_args [a, b, c, d, e, f] = [b, c, d, e, f, f]"
  unfolding shift_args_def shift_range by simp

lemma xxx_at_open_events:
  assumes pi: "pi < length (processes s)"
    and m: "mode (proc s pi) = MODE_X86_64"
    and c: "current_syscall (proc s pi) = 257"
    and a: "params (proc s pi) = [dirfd, path, flags, a3, a4, a5]" "sint dirfd = AT_FDCWD"
  shows "events_of (syscall_xxx_at E nm pi 2 s) = sink_events s @ open_events E (proc s pi) path flags"
proof -
  have t: "syscall_type_of (proc s pi) = SYSCALL_X86_64"
    using m c by (simp add: syscall_type_of_def X32_SYSCALL_BIT_def)
  let ?s1 = "upd_proc pi (\<lambda>p. p\<lparr>params := shift_args (params p)\<rparr>) s"
  have p1: "proc ?s1 pi = (proc s pi)\<lparr>params := [path, flags, a3, a4, a5, a5]\<rparr>"
    using pi a by (simp add: proc_upd_proc shift_args_6)
  have inner: "events_of (syscall_fileopening E nm pi SYSCALL_OPENING_OPEN ?s1)
        = sink_events s @ open_events E (proc s pi) path flags"
    using fileopening_open_events [of ?s1 pi path flags E nm] p1
    by (simp add: open_events_def)
  show ?thesis
    apply (subst syscall_xxx_at.simps)
    apply (subst call_handler.simps)
    using a inner
    by (simp add: Let_def t tables_nth len_x64 x64_entry listed_x64_2 events_of_at_result)
qed

lemma handle_openat_events:
  assumes pi: "pi < length (processes s)"
    and m: "mode (proc s pi) = MODE_X86_64" and i: "in_syscall (proc s pi)"
    and c: "current_syscall (proc s pi) = 257"
    and a: "params (proc s pi) = [dirfd, path, flags, a3, a4, a5]" "sint dirfd = AT_FDCWD"
  shows "events_of (syscall_handle E pi s) = sink_events s @ open_events E (proc s pi) path flags"
proof -
  have t: "syscall_type_of (proc s pi) = SYSCALL_X86_64"
    using m c by (simp add: syscall_type_of_def X32_SYSCALL_BIT_def)
  have n: "current_syscall (proc s pi) AND NOT X32_SYSCALL_BIT = 257"
    using c by (simp add: X32_SYSCALL_BIT_def)
  let ?s1 = "log_if (3 \<le> verbosity E) (Log Debug (tid (proc s pi)) ''%s()'' [LStr ''openat''])
              (log_if (4 \<le> verbosity E) (Log Debug (tid (proc s pi)) ''syscall %d (x64)'' [LInt 257]) s)"
  have at: "events_of (syscall_xxx_at E (Some ''openat'') pi 2 ?s1)
            = sink_events s @ open_events E (proc s pi) path flags"
    using xxx_at_open_events [of pi ?s1 dirfd path flags a3 a4 a5 E "Some ''openat''"] pi m c a
    by simp
  show ?thesis
    unfolding syscall_handle_def Let_def t n tables_nth
    using i at
    by (simp add: resolve_entry_def dispatch_entry_def len_x64 x64_entry listed_x64_257
        events_of_handle_result call_handler.simps [of _ H_xxx_at]
        SYSCALL_I386_def SYSCALL_X86_64_def SYSCALL_X86_64_x32_def)
qed

text \<open>
  C6. On an X86_64 task at a syscall exit, dispatching syscall 257 (openat) with the
  AT_FDCWD sentinel as directory-fd, a path in argument 1 and flags in argument 2 puts
  the same events into the sink as dispatching syscall 2 (open) with that path and
  those flags in arguments 0 and 1: nothing when \<open>retvalue < 0\<close>, otherwise the one
  \<open>add_file_open\<close> with the task's identifier, the resolved path, the mode bits of the
  flags and the directory test of the resolved path.
\<close>

theorem openat_cwd_same_as_open:
  assumes "pi < length (processes s)" and "mode (proc s pi) = MODE_X86_64"
    and "in_syscall (proc s pi)" and "sint dirfd = AT_FDCWD"
  shows "events_of (syscall_handle E pi
            (upd_proc pi (\<lambda>p. p\<lparr>current_syscall := 257,
                                   params := [dirfd, path, flags, a3, a4, a5]\<rparr>) s))
       = events_of (syscall_handle E pi
            (upd_proc pi (\<lambda>p. p\<lparr>current_syscall := 2,
                                   params := [path, flags, b2, b3, b4, b5]\<rparr>) s))
     \<and> events_of (syscall_handle E pi
            (upd_proc pi (\<lambda>p. p\<lparr>current_syscall := 2,
                                   params := [path, flags, b2, b3, b4, b5]\<rparr>) s))
       = sink_events s @
         (if sint (retvalue (proc s pi)) \<ge> 0
          then [Db_add_file_open (identifier (proc s pi))
                  (abs_path_arg E ((proc s pi)\<lparr>params := [path]\<rparr>) 0) (flags2mode flags)
                  (path_is_dir E (abs_path_arg E ((proc s pi)\<lparr>params := [path]\<rparr>) 0))]
          else [])"
proof -
  let ?at = "upd_proc pi (\<lambda>p. p\<lparr>current_syscall := 257,
                                   params := [dirfd, path, flags, a3, a4, a5]\<rparr>) s"
  let ?op = "upd_proc pi (\<lambda>p. p\<lparr>current_syscall := 2,
                                   params := [path, flags, b2, b3, b4, b5]\<rparr>) s"
  have 1: "events_of (syscall_handle E pi ?at) = sink_events ?at @ open_events E (proc ?at pi) path flags"
    using assms by (intro handle_openat_events [where dirfd = dirfd and ?a3.0 = a3 and ?a4.0 = a4 and ?a5.0 = a5])
      (simp_all add: proc_upd_proc)
  have 2: "events_of (syscall_handle E pi ?op) = sink_events ?op @ open_events E (proc ?op pi) path flags"
    using assms by (intro handle_open_events) (simp_all add: proc_upd_proc)
  from assms(1) have 3: "open_events E (proc ?at pi) path flags = open_events E (proc s pi) path flags"
    "open_events E (proc ?op pi) path flags = open_events E (proc s pi) path flags"
    by (intro open_events_cong; simp add: proc_upd_proc)+
  from 1 2 3 show ?thesis by (simp add: open_events_def)
qed


theorem openat_cwd_same_as_open_witness:
  "events_of (syscall_handle env0 0
      (upd_proc 0 (\<lambda>p. p\<lparr>current_syscall := 257, params := [- 100, 0x1000, 0, 0x1A4, 0, 0]\<rparr>)
         (st [task 100 100 0 3 []])))
   = events_of (syscall_handle env0 0
      (upd_proc 0 (\<lambda>p. p\<lparr>current_syscall := 2, params := [0x1000, 0, 0x1A4, 0, 0, 0]\<rparr>)
         (st [task 100 100 0 3 []])))
   \<and> events_of (syscall_handle env0 0
      (upd_proc 0 (\<lambda>p. p\<lparr>current_syscall := 2, params := [0x1000, 0, 0x1A4, 0, 0, 0]\<rparr>)
         (st [task 100 100 0 3 []])))
   = [Db_add_file_open 101 ''/home/u/out'' FILE_READ False]"
proof -
  let ?s = "st [task 100 100 0 3 []]"
  have h: "0 < length (processes ?s)" "mode (proc ?s 0) = MODE_X86_64" "in_syscall (proc ?s 0)"
    "sint (- 100 :: 64 word) = AT_FDCWD"
    by (simp_all add: st_def task_def proc_def AT_FDCWD_def)
  have e: "sink_events ?s @
         (if sint (retvalue (proc ?s 0)) \<ge> 0
          then [Db_add_file_open (identifier (proc ?s 0))
                  (abs_path_arg env0 ((proc ?s 0)\<lparr>params := [0x1000]\<rparr>) 0) (flags2mode 0)
                  (path_is_dir env0 (abs_path_arg env0 ((proc ?s 0)\<lparr>params := [0x1000]\<rparr>) 0))]
          else [])
        = [Db_add_file_open 101 ''/home/u/out'' FILE_READ False]"
    by (simp add: st_def task_def proc_def sink_events_def abs_path_arg_def env0_def flags2mode_def
        O_ACCMODE_def O_RDONLY_def O_RDWR_def O_WRONLY_def O_CREAT_def O_TRUNC_def FILE_READ_def)
  from openat_cwd_same_as_open [OF h, of env0 "0x1000" 0 "0x1A4" 0 0 "0x1A4" 0 0 0] e
  show ?thesis by simp
qed

text \<open>A run of the wrapper on openat with the sentinel, for the witness of C7.\<close>

lemma xxx_at_openat_run:
  "syscall_xxx_at env0 (Some ''openat'') 0 2 (st [task 100 100 257 3 [- 100, 0x1000, 0, 0x1A4, 0, 0]])
   = Inr (0, \<lparr>processes = [task 100 100 257 3 [- 100, 0x1000, 0, 0x1A4, 0, 0]],
               trace = [Db_add_file_open 101 ''/home/u/out'' FILE_READ False]\<rparr>)"
  apply (subst syscall_xxx_at.simps)
  apply (subst call_handler.simps)
  apply (simp add: Let_def st_def task_def proc_def AT_FDCWD_def syscall_type_of_def X32_SYSCALL_BIT_def
      tables_nth len_x64 x64_entry listed_x64_2 upd_proc_def shift_args_6)
  apply (simp add: syscall_fileopening_def Let_def proc_def log_if_def env0_def sink_call_def
      sink_events_def emit_def abs_path_arg_def flags2mode_def
      SYSCALL_OPENING_OPEN_def SYSCALL_OPENING_ACCESS_def SYSCALL_OPENING_CREAT_def
      O_ACCMODE_def O_RDONLY_def O_RDWR_def O_WRONLY_def O_CREAT_def O_TRUNC_def FILE_READ_def)
  unfolding unshift_args_def unshift_range
  apply (simp add: upd_proc_def)
  done


theorem xxx_at_restores_params_witness:
  "map (\<lambda>i. params (proc \<lparr>processes = [task 100 100 257 3 [- 100, 0x1000, 0, 0x1A4, 0, 0]],
                            trace = [Db_add_file_open 101 ''/home/u/out'' FILE_READ False]\<rparr> 0) ! i)
       [0, 1, 2, 3, 4, 5]
   = map (\<lambda>i. params (proc (st [task 100 100 257 3 [- 100, 0x1000, 0, 0x1A4, 0, 0]]) 0) ! i)
       [0, 1, 2, 3, 4, 5]
   \<and> unshift_args (1 :: 64 word) (shift_args [1, 2, 3, 4, 5, 6]) = [1, 2, 3, 4, 5, 6]"
proof -
  let ?s = "st [task 100 100 257 3 [- 100, 0x1000, 0, 0x1A4, 0, 0]]"
  have h: "0 < length (processes ?s) \<and> length (params (proc ?s 0)) = PROCESS_ARGS
      \<and> sint (params (proc ?s 0) ! 0) = AT_FDCWD"
    by (simp add: st_def task_def proc_def PROCESS_ARGS_def AT_FDCWD_def)
  have l: "length [1, 2, 3, 4, 5, 6 :: 64 word] = PROCESS_ARGS"
    by (simp add: PROCESS_ARGS_def)
  from xxx_at_restores_params [of 0 ?s env0 "Some ''openat''" 2 0
      "\<lparr>processes = [task 100 100 257 3 [- 100, 0x1000, 0, 0x1A4, 0, 0]],
        trace = [Db_add_file_open 101 ''/home/u/out'' FILE_READ False]\<rparr>" "[1, 2, 3, 4, 5, 6]"]
    h l xxx_at_openat_run
  show ?thesis by (simp add: PROCESS_ARGS_def)
qed


subsection \<open>execve exit on the thread-group leader\<close>

text \<open>
  With a sink that fails, the handler stops after \<open>add_exit\<close>: the caller is not marked
  FREE and no \<open>add_exec\<close> follows, although \<open>retvalue \<ge> 0\<close>.
\<close>

theorem execve_out_sink_failure_counterexample:
  "syscall_execve_out env_sink_down (Some ''execve'') 0 59
     (st [task 100 100 59 0 [0, 0, 0, 0, 0, 0], caller101])
   = Inr (- 1, \<lparr>processes = [task 100 100 59 0 [0, 0, 0, 0, 0, 0], caller101],
                 trace = [Db_add_exit 102 0]\<rparr>)"
  by (simp add: syscall_execve_out_def Let_def execve_caller_def sink_call_def emit_def
      st_def task_def caller101_def proc_def env_sink_down_def env0_def)

text \<open>
  C3, as amended. An execve exit is delivered on task \<open>pi\<close>, whose own \<open>syscall_info\<close> is
  null, and the registry search finds the caller \<open>j\<close>. As long as each call to the sink
  and to the proc scraper returns 0, the handler returns 0 after, in this order:
  \<open>add_exit(caller.identifier, 0)\<close>; freeing the caller's wd and marking the caller FREE;
  when \<open>retvalue \<ge> 0\<close>, \<open>add_exec(surviving.identifier, binary, argv, envp, surviving.wd)\<close>
  and then \<open>add_files_from_proc(surviving.identifier, surviving.tid, binary)\<close>; releasing
  the scratch and nulling the caller's \<open>syscall_info\<close>. The first of these calls that
  returns non-zero ends the handler with -1 at that point, with none of the later
  steps: after a failing \<open>add_exit\<close> the registry is as it was; after a failing
  \<open>add_exec\<close> or \<open>add_files_from_proc\<close> the caller is already FREE, its wd freed, and
  the scratch is neither released nor unlinked from the caller.
\<close>

theorem execve_out_leader_swap:
  assumes "pi < length (processes s)"
    and "syscall_info (proc s pi) = None"
    and "find_from (execve_caller (proc s pi) nr) (processes s) 0 = Some j"
    and "syscall_info (proc s j) = Some ei"
    and "ex = Db_add_exit (identifier (proc s j)) 0"
    and "ec = Db_add_exec (identifier (proc s pi)) (binary ei) (argv ei) (envp ei) (wd (proc s pi))"
    and "fp = Add_files_from_proc (identifier (proc s pi)) (tid (proc s pi)) (binary ei)"
    and "lg = (if verbosity E \<ge> 2
               then [Log Info (tid (proc s j)) ''successfully exec'd %s'' [LStr (binary ei)]]
               else [])"
    and "freed = (processes s)[j := (proc s j)\<lparr>status := PROCESS_FREE\<rparr>]"
    and "released = (processes s)[j := (proc s j)\<lparr>status := PROCESS_FREE, syscall_info := None\<rparr>]"
  shows "syscall_execve_out E nm pi nr s =
           (if sink_fails E (sink_events s) ex
            then Inr (- 1, \<lparr>processes = processes s, trace = trace s @ [ex]\<rparr>)
            else if sint (retvalue (proc s pi)) < 0
            then Inr (0, \<lparr>processes = released,
                           trace = trace s @ [ex, Mem_free (Wd j), Mem_free (Execve_info j)]\<rparr>)
            else if sink_fails E (sink_events s @ [ex]) ec
            then Inr (- 1, \<lparr>processes = freed, trace = trace s @ [ex, Mem_free (Wd j), ec]\<rparr>)
            else if sink_fails E (sink_events s @ [ex, ec]) fp
            then Inr (- 1, \<lparr>processes = freed,
                             trace = trace s @ [ex, Mem_free (Wd j), ec] @ lg @ [fp]\<rparr>)
            else Inr (0, \<lparr>processes = released,
                           trace = trace s @ [ex, Mem_free (Wd j), ec] @ lg
                                     @ [fp, Mem_free (Execve_info j)]\<rparr>))"
proof -
  from find_from_0_Some [OF assms(3)] have j: "j < length (processes s)" by simp
  from assms(2, 4) have ne: "j \<noteq> pi" by auto
  show ?thesis
    using assms j ne
    by (simp add: syscall_execve_out_def execve_out_finish_def Let_def sink_call_def log_if_def
        proc_upd_proc sink_events_emit is_sink_event_def)
       (auto simp: emit_def upd_proc_def proc_def list_update_swap)
qed

theorem execve_out_leader_swap_witness:
  "syscall_execve_out env0 (Some ''execve'') 0 59
     (st [task 100 100 59 0 [0, 0, 0, 0, 0, 0], caller101])
   = Inr (0, \<lparr>processes = [task 100 100 59 0 [0, 0, 0, 0, 0, 0],
                             caller101\<lparr>status := PROCESS_FREE, syscall_info := None\<rparr>],
               trace = [Db_add_exit 102 0, Mem_free (Wd 1),
                        Db_add_exec 101 ''/bin/ls'' [''ls'', ''-l''] [''HOME=/home/u''] ''/home/u'',
                        Add_files_from_proc 101 100 ''/bin/ls'',
                        Mem_free (Execve_info 1)]\<rparr>)
   \<and> syscall_execve_out env_exec_down (Some ''execve'') 0 59
     (st [task 100 100 59 0 [0, 0, 0, 0, 0, 0], caller101])
   = Inr (- 1, \<lparr>processes = [task 100 100 59 0 [0, 0, 0, 0, 0, 0],
                               caller101\<lparr>status := PROCESS_FREE\<rparr>],
                 trace = [Db_add_exit 102 0, Mem_free (Wd 1),
                        Db_add_exec 101 ''/bin/ls'' [''ls'', ''-l''] [''HOME=/home/u''] ''/home/u'']\<rparr>)
   \<and> syscall_execve_out env_scraper_down (Some ''execve'') 0 59
     (st [task 100 100 59 0 [0, 0, 0, 0, 0, 0], caller101])
   = Inr (- 1, \<lparr>processes = [task 100 100 59 0 [0, 0, 0, 0, 0, 0],
                               caller101\<lparr>status := PROCESS_FREE\<rparr>],
                 trace = [Db_add_exit 102 0, Mem_free (Wd 1),
                        Db_add_exec 101 ''/bin/ls'' [''ls'', ''-l''] [''HOME=/home/u''] ''/home/u'',
                        Add_files_from_proc 101 100 ''/bin/ls'']\<rparr>)"
proof -
  let ?s = "st [task 100 100 59 0 [0, 0, 0, 0, 0, 0], caller101]"
  let ?ei = "\<lparr>binary = ''/bin/ls'', argv = [''ls'', ''-l''], envp = [''HOME=/home/u'']\<rparr>"
  have 1: "0 < length (processes ?s)" by (simp add: st_def)
  have 2: "syscall_info (proc ?s 0) = None" by (simp add: st_def proc_def task_def)
  have 3: "find_from (execve_caller (proc ?s 0) 59) (processes ?s) 0 = Some 1"
    by (simp add: st_def proc_def task_def caller101_def execve_caller_def)
  have 4: "syscall_info (proc ?s 1) = Some ?ei"
    by (simp add: st_def proc_def caller101_def)
  note run = execve_out_leader_swap [OF 1 2 3 4 refl refl refl refl refl refl, of _ "Some ''execve''"]
  from run [of env0] run [of env_exec_down] run [of env_scraper_down]
  show ?thesis
    by (simp add: st_def proc_def task_def caller101_def env0_def env_exec_down_def
        env_scraper_down_def exec_event_def scraper_event_def)
qed

subsection \<open>fork, vfork, clone\<close>

text \<open>
  The new tid is already registered and running: the handler logs a critical error and
  fails, and no \<open>add_process\<close> is emitted.
\<close>

theorem forking_already_running_counterexample:
  "syscall_forking env0 (Some ''fork'') 0 SYSCALL_FORK_FORK
     (st [task 100 100 57 200 [0, 0, 0, 0, 0, 0], task 200 200 0 0 [0, 0, 0, 0, 0, 0]])
   = Inr (- 1, \<lparr>processes = [task 100 100 57 200 [0, 0, 0, 0, 0, 0], task 200 200 0 0 [0, 0, 0, 0, 0, 0]],
                 trace = [Log Critical 200 ''just created process that is already running (status=%d)''
                            [LStatus PROCESS_ATTACHED]]\<rparr>)"
  by (simp add: syscall_forking_def Let_def trace_find_process_def log_if_def emit_def
      st_def task_def proc_def env0_def)

lemma fst_get_empty_log_if [simp]:
  "fst (trace_get_empty_process (log_if c e s)) = fst (trace_get_empty_process s)"
  by (simp add: trace_get_empty_process_def split: option.splits)

lemma forking_register_result:
  assumes "k < length (processes s)" "pi < length (processes s)"
  shows "\<exists>c s'. forking_register E pi th k s = Inr (c, s')
           \<and> processes s' = (processes s)[k := (proc s k)\<lparr>
                  tgid := (if th then tgid (proc s pi) else tid (proc s k)),
                  wd := wd (proc s pi),
                  identifier := sink_identifier E (sink_events s)
                     (Db_add_process (identifier (proc s pi)) (wd (proc s pi)))\<rparr>]
           \<and> trace s' = trace s @ [Db_add_process (identifier (proc s pi)) (wd (proc s pi))]"
  using assms
  by (cases "k = pi")
     (auto simp: forking_register_def Let_def sink_call_def proc_upd_proc emit_def upd_proc_def
        proc_def sink_events_def)


lemma forking_new_task_main:
  assumes pi: "pi < length (processes s)"
    and pos: "sint (retvalue (proc s pi)) > 0"
    and nt: "new_tid = (ucast (retvalue (proc s pi)) :: 32 word)"
    and th: "th = (sc = SYSCALL_FORK_CLONE \<and> params (proc s pi) ! 0 AND CLONE_THREAD \<noteq> 0)"
    and k: "k = (case trace_find_process (processes s) new_tid of
                   Some j \<Rightarrow> j | None \<Rightarrow> fst (trace_get_empty_process s))"
    and ok: "trace_find_process (processes s) new_tid \<noteq> None \<longrightarrow> status (proc s k) = PROCESS_UNKNOWN"
  shows "\<exists>c s'. syscall_forking E nm pi sc s = Inr (c, s')
           \<and> tid (proc s' k) = new_tid
           \<and> tgid (proc s' k) = (if th then tgid (proc s pi) else new_tid)
           \<and> wd (proc s' k) = wd (proc s pi)
           \<and> sink_events s' = sink_events s @ [Db_add_process (identifier (proc s pi)) (wd (proc s pi))]
           \<and> (trace_find_process (processes s) new_tid \<noteq> None \<longrightarrow>
                  status (proc s' k) = PROCESS_ATTACHED
                  \<and> Ptrace_SYSCALL new_tid \<in> set (drop (length (trace s)) (trace s')))
           \<and> (trace_find_process (processes s) new_tid = None \<longrightarrow>
                  (k < length (processes s) \<longrightarrow> status (proc s k) = PROCESS_FREE)
                  \<and> status (proc s' k) = PROCESS_ALLOCATED \<and> \<not> in_syscall (proc s' k))"
proof (cases "trace_find_process (processes s) new_tid")
  case (Some j)
  with k have kj: "k = j" by simp
  from trace_find_process_Some [OF Some] have j: "j < length (processes s)"
    and tj: "tid (proc s j) = new_tid" by (simp_all add: proc_def)
  from ok Some kj have u: "status (proc s j) = PROCESS_UNKNOWN" by simp
  let ?s1 = "log_if (verbosity E \<ge> 2)
                    (Log Info new_tid
                       ''process created by %d via %s (thread: %s) (working directory: %s)''
                       [LInt (sint (tid (proc s pi))),
                        LStr (if sc = SYSCALL_FORK_FORK then ''fork()''
                              else if sc = SYSCALL_FORK_VFORK then ''vfork()'' else ''clone()''),
                        LStr (if th then ''yes'' else ''no''),
                        LStr (wd (proc s pi))]) s"
  let ?s2 = "upd_proc j (\<lambda>p. p\<lparr>status := PROCESS_ATTACHED\<rparr>) ?s1"
  let ?s3 = "emit (Ptrace_SYSCALL new_tid) ?s2"
  let ?s3' = "log_if (verbosity E \<ge> 2)
                (Log Info 0 ''%d processes (inc. %d unattached)''
                   [LInt (int (fst (trace_count_processes E (processes ?s3)))),
                    LInt (int (snd (trace_count_processes E (processes ?s3))))]) ?s3"
  have run: "syscall_forking E nm pi sc s = forking_register E pi th j ?s3'"
    using pos Some u tj j nt th
    by (simp add: syscall_forking_def Let_def proc_upd_proc)
  have len: "j < length (processes ?s3')" "pi < length (processes ?s3')"
    using j pi by simp_all
  from forking_register_result [OF len, of E th] obtain c s' where
    r: "forking_register E pi th j ?s3' = Inr (c, s')"
    and p: "processes s' = (processes ?s3')[j := (proc ?s3' j)\<lparr>
                  tgid := (if th then tgid (proc ?s3' pi) else tid (proc ?s3' j)),
                  wd := wd (proc ?s3' pi),
                  identifier := sink_identifier E (sink_events ?s3')
                     (Db_add_process (identifier (proc ?s3' pi)) (wd (proc ?s3' pi)))\<rparr>]"
    and t: "trace s' = trace ?s3' @ [Db_add_process (identifier (proc ?s3' pi)) (wd (proc ?s3' pi))]"
    by blast
  have same: "tgid (proc ?s3' pi) = tgid (proc s pi)" "wd (proc ?s3' pi) = wd (proc s pi)"
    "identifier (proc ?s3' pi) = identifier (proc s pi)" "tid (proc ?s3' j) = new_tid"
    using j pi tj by (simp_all add: proc_upd_proc)
  have tr: "trace s' = trace s @ drop (length (trace s)) (trace s')"
    "Ptrace_SYSCALL new_tid \<in> set (drop (length (trace s)) (trace s'))"
    "sink_events s' = sink_events s @ [Db_add_process (identifier (proc s pi)) (wd (proc s pi))]"
    using t same by (simp_all add: log_if_def emit_def upd_proc_def sink_events_def is_sink_event_def)
  from p same j have "tid (proc s' j) = new_tid"
    "tgid (proc s' j) = (if th then tgid (proc s pi) else new_tid)"
    "wd (proc s' j) = wd (proc s pi)" "status (proc s' j) = PROCESS_ATTACHED"
    by (simp_all add: proc_def upd_proc_def)
  with run r tr Some kj show ?thesis by simp
next
  case None
  let ?s1 = "log_if (verbosity E \<ge> 2)
                    (Log Info new_tid
                       ''process created by %d via %s (thread: %s) (working directory: %s)''
                       [LInt (sint (tid (proc s pi))),
                        LStr (if sc = SYSCALL_FORK_FORK then ''fork()''
                              else if sc = SYSCALL_FORK_VFORK then ''vfork()'' else ''clone()''),
                        LStr (if th then ''yes'' else ''no''),
                        LStr (wd (proc s pi))]) s"
  obtain k' s2 where g: "trace_get_empty_process ?s1 = (k', s2)"
    by (cases "trace_get_empty_process ?s1") auto
  from g k None have kk: "k' = k"
    using fst_get_empty_log_if [of "verbosity E \<ge> 2" _ s] by (metis fst_conv option.simps(4))
  let ?s3 = "upd_proc k (\<lambda>p. p\<lparr>status := PROCESS_ALLOCATED, tid := new_tid, in_syscall := False\<rparr>) s2"
  have run: "syscall_forking E nm pi sc s = forking_register E pi th k ?s3"
    using pos None g kk nt th by (simp add: syscall_forking_def Let_def)
  from trace_get_empty_process_cases [OF g] kk
  have c: "(k < length (processes s) \<and> status (processes s ! k) = PROCESS_FREE \<and> processes s2 = processes s)
          \<or> (k = length (processes s) \<and> processes s2 = processes s @ [fresh_slot])"
    and t2: "trace s2 = trace ?s1"
    by auto
  from c pi have len: "k < length (processes ?s3)" "pi < length (processes ?s3)" by auto
  from forking_register_result [OF len, of E th] obtain c' s' where
    r: "forking_register E pi th k ?s3 = Inr (c', s')"
    and p: "processes s' = (processes ?s3)[k := (proc ?s3 k)\<lparr>
                  tgid := (if th then tgid (proc ?s3 pi) else tid (proc ?s3 k)),
                  wd := wd (proc ?s3 pi),
                  identifier := sink_identifier E (sink_events ?s3)
                     (Db_add_process (identifier (proc ?s3 pi)) (wd (proc ?s3 pi)))\<rparr>]"
    and t: "trace s' = trace ?s3 @ [Db_add_process (identifier (proc ?s3 pi)) (wd (proc ?s3 pi))]"
    by blast
  have same: "tgid (proc ?s3 pi) = tgid (proc s pi)" "wd (proc ?s3 pi) = wd (proc s pi)"
    "identifier (proc ?s3 pi) = identifier (proc s pi)"
    using c pi by (cases "k = pi"; auto simp: proc_def upd_proc_def nth_append)+
  have new: "tid (proc ?s3 k) = new_tid" "status (proc ?s3 k) = PROCESS_ALLOCATED"
    "\<not> in_syscall (proc ?s3 k)"
    using len by (simp_all add: proc_upd_proc)
  have tr: "sink_events s' = sink_events s @ [Db_add_process (identifier (proc s pi)) (wd (proc s pi))]"
    using t t2 same by (simp add: log_if_def emit_def upd_proc_def sink_events_def is_sink_event_def)
  from p same new len have "tid (proc s' k) = new_tid"
    "tgid (proc s' k) = (if th then tgid (proc s pi) else new_tid)"
    "wd (proc s' k) = wd (proc s pi)" "status (proc s' k) = PROCESS_ALLOCATED"
    "\<not> in_syscall (proc s' k)"
    by (simp_all add: proc_def)
  moreover from c have "k < length (processes s) \<longrightarrow> status (proc s k) = PROCESS_FREE"
    by (auto simp: proc_def)
  ultimately show ?thesis using run r tr None by simp
qed


text \<open>
  C9, as amended. On a fork, vfork or clone exit with \<open>retvalue > 0\<close>, the new tid being
  the return value as a \<^verbatim>\<open>pid_t\<close> and \<open>k\<close> the slot of the new task. If the new tid is
  absent from the registry or registered with status UNKNOWN: the new task's tgid is the
  parent's tgid when the syscall is clone and the flags include CLONE_THREAD, and the new
  tid otherwise; its wd is the parent's wd; exactly one sink event is emitted,
  \<open>add_process(parent.identifier, parent.wd)\<close>; a tid registered with status UNKNOWN is
  promoted to ATTACHED and resumed with PTRACE_SYSCALL, and for an absent tid \<open>k\<close> is a slot
  that was FREE or is new and gets status ALLOCATED, the new tid and \<open>in_syscall = false\<close>.
  If the new tid is registered with any other status, the handler logs a critical error
  naming that status and returns -1; the registry is unchanged and nothing is emitted to
  the sink.
\<close>

theorem forking_new_task:
  assumes pi: "pi < length (processes s)"
    and pos: "sint (retvalue (proc s pi)) > 0"
    and nt: "new_tid = (ucast (retvalue (proc s pi)) :: 32 word)"
    and th: "th = (sc = SYSCALL_FORK_CLONE \<and> params (proc s pi) ! 0 AND CLONE_THREAD \<noteq> 0)"
    and k: "k = (case trace_find_process (processes s) new_tid of
                   Some j \<Rightarrow> j | None \<Rightarrow> fst (trace_get_empty_process s))"
  shows "((trace_find_process (processes s) new_tid \<noteq> None \<longrightarrow> status (proc s k) = PROCESS_UNKNOWN)
          \<longrightarrow>
          (\<exists>c s'. syscall_forking E nm pi sc s = Inr (c, s')
           \<and> tid (proc s' k) = new_tid
           \<and> tgid (proc s' k) = (if th then tgid (proc s pi) else new_tid)
           \<and> wd (proc s' k) = wd (proc s pi)
           \<and> sink_events s' = sink_events s @ [Db_add_process (identifier (proc s pi)) (wd (proc s pi))]
           \<and> (trace_find_process (processes s) new_tid \<noteq> None \<longrightarrow>
                  status (proc s' k) = PROCESS_ATTACHED
                  \<and> Ptrace_SYSCALL new_tid \<in> set (drop (length (trace s)) (trace s')))
           \<and> (trace_find_process (processes s) new_tid = None \<longrightarrow>
                  (k < length (processes s) \<longrightarrow> status (proc s k) = PROCESS_FREE)
                  \<and> status (proc s' k) = PROCESS_ALLOCATED \<and> \<not> in_syscall (proc s' k))))
       \<and> (trace_find_process (processes s) new_tid \<noteq> None \<and> status (proc s k) \<noteq> PROCESS_UNKNOWN
          \<longrightarrow>
          (\<exists>s'. syscall_forking E nm pi sc s = Inr (- 1, s')
           \<and> processes s' = processes s
           \<and> sink_events s' = sink_events s
           \<and> last (trace s') = Log Critical new_tid
                ''just created process that is already running (status=%d)''
                [LStatus (status (proc s k))]))"
proof (intro conjI impI)
  assume "trace_find_process (processes s) new_tid \<noteq> None \<longrightarrow> status (proc s k) = PROCESS_UNKNOWN"
  from forking_new_task_main [OF pi pos nt th k this]
  show "\<exists>c s'. syscall_forking E nm pi sc s = Inr (c, s')
           \<and> tid (proc s' k) = new_tid
           \<and> tgid (proc s' k) = (if th then tgid (proc s pi) else new_tid)
           \<and> wd (proc s' k) = wd (proc s pi)
           \<and> sink_events s' = sink_events s @ [Db_add_process (identifier (proc s pi)) (wd (proc s pi))]
           \<and> (trace_find_process (processes s) new_tid \<noteq> None \<longrightarrow>
                  status (proc s' k) = PROCESS_ATTACHED
                  \<and> Ptrace_SYSCALL new_tid \<in> set (drop (length (trace s)) (trace s')))
           \<and> (trace_find_process (processes s) new_tid = None \<longrightarrow>
                  (k < length (processes s) \<longrightarrow> status (proc s k) = PROCESS_FREE)
                  \<and> status (proc s' k) = PROCESS_ALLOCATED \<and> \<not> in_syscall (proc s' k))" .
next
  assume g: "trace_find_process (processes s) new_tid \<noteq> None \<and> status (proc s k) \<noteq> PROCESS_UNKNOWN"
  then obtain j where j: "trace_find_process (processes s) new_tid = Some j" by auto
  with k have kj: "k = j" by simp
  from g j kj pos nt show "\<exists>s'. syscall_forking E nm pi sc s = Inr (- 1, s')
           \<and> processes s' = processes s
           \<and> sink_events s' = sink_events s
           \<and> last (trace s') = Log Critical new_tid
                ''just created process that is already running (status=%d)''
                [LStatus (status (proc s k))]"
    by (simp add: syscall_forking_def Let_def)
       (auto simp: sink_events_def is_sink_event_def emit_def log_if_def
          SYSCALL_FORK_FORK_def SYSCALL_FORK_VFORK_def SYSCALL_FORK_CLONE_def)
qed

theorem forking_new_task_witness:
  "(\<exists>c s'. syscall_forking env0 (Some ''fork'') 0 SYSCALL_FORK_FORK
               (st [task 100 100 57 200 [0, 0, 0, 0, 0, 0]]) = Inr (c, s')
      \<and> tid (proc s' 1) = 200 \<and> tgid (proc s' 1) = 200 \<and> wd (proc s' 1) = ''/home/u''
      \<and> sink_events s' = [Db_add_process 101 ''/home/u'']
      \<and> status (proc s' 1) = PROCESS_ALLOCATED \<and> in_syscall (proc s' 1) = False)
   \<and> (\<exists>c s'. syscall_forking env0 (Some ''clone'') 0 SYSCALL_FORK_CLONE
               (st [task 100 100 56 200 [0x10000, 0, 0, 0, 0, 0],
                    (task 200 0 0 0 [0, 0, 0, 0, 0, 0])\<lparr>status := PROCESS_UNKNOWN\<rparr>]) = Inr (c, s')
      \<and> tid (proc s' 1) = 200 \<and> tgid (proc s' 1) = 100 \<and> wd (proc s' 1) = ''/home/u''
      \<and> sink_events s' = [Db_add_process 101 ''/home/u'']
      \<and> status (proc s' 1) = PROCESS_ATTACHED \<and> Ptrace_SYSCALL 200 \<in> set (trace s'))
   \<and> (\<exists>s'. syscall_forking env0 (Some ''vfork'') 0 SYSCALL_FORK_VFORK
               (st [task 100 100 58 200 [0, 0, 0, 0, 0, 0],
                    (task 200 200 0 0 [0, 0, 0, 0, 0, 0])\<lparr>status := PROCESS_ALLOCATED\<rparr>]) = Inr (- 1, s')
      \<and> processes s' = [task 100 100 58 200 [0, 0, 0, 0, 0, 0],
                         (task 200 200 0 0 [0, 0, 0, 0, 0, 0])\<lparr>status := PROCESS_ALLOCATED\<rparr>]
      \<and> sink_events s' = []
      \<and> last (trace s') = Log Critical 200
           ''just created process that is already running (status=%d)'' [LStatus PROCESS_ALLOCATED])"
proof -
  let ?a = "st [task 100 100 57 200 [0, 0, 0, 0, 0, 0]]"
  let ?b = "st [task 100 100 56 200 [0x10000, 0, 0, 0, 0, 0],
                (task 200 0 0 0 [0, 0, 0, 0, 0, 0])\<lparr>status := PROCESS_UNKNOWN\<rparr>]"
  let ?c = "st [task 100 100 58 200 [0, 0, 0, 0, 0, 0],
                (task 200 200 0 0 [0, 0, 0, 0, 0, 0])\<lparr>status := PROCESS_ALLOCATED\<rparr>]"
  have a: "0 < length (processes ?a)" "sint (retvalue (proc ?a 0)) > 0"
    "(200 :: 32 word) = ucast (retvalue (proc ?a 0))"
    "False = (SYSCALL_FORK_FORK = SYSCALL_FORK_CLONE \<and> params (proc ?a 0) ! 0 AND CLONE_THREAD \<noteq> 0)"
    "1 = (case trace_find_process (processes ?a) 200 of
            Some j \<Rightarrow> j | None \<Rightarrow> fst (trace_get_empty_process ?a))"
    and an: "trace_find_process (processes ?a) 200 = None"
    by (simp_all add: st_def task_def proc_def trace_find_process_def trace_get_empty_process_def
        SYSCALL_FORK_FORK_def SYSCALL_FORK_CLONE_def)
  have b: "0 < length (processes ?b)" "sint (retvalue (proc ?b 0)) > 0"
    "(200 :: 32 word) = ucast (retvalue (proc ?b 0))"
    "True = (SYSCALL_FORK_CLONE = SYSCALL_FORK_CLONE \<and> params (proc ?b 0) ! 0 AND CLONE_THREAD \<noteq> 0)"
    "1 = (case trace_find_process (processes ?b) 200 of
            Some j \<Rightarrow> j | None \<Rightarrow> fst (trace_get_empty_process ?b))"
    and bn: "trace_find_process (processes ?b) 200 \<noteq> None" "status (proc ?b 1) = PROCESS_UNKNOWN"
    by (simp_all add: st_def task_def proc_def trace_find_process_def CLONE_THREAD_def)
  have c: "0 < length (processes ?c)" "sint (retvalue (proc ?c 0)) > 0"
    "(200 :: 32 word) = ucast (retvalue (proc ?c 0))"
    "False = (SYSCALL_FORK_VFORK = SYSCALL_FORK_CLONE \<and> params (proc ?c 0) ! 0 AND CLONE_THREAD \<noteq> 0)"
    "1 = (case trace_find_process (processes ?c) 200 of
            Some j \<Rightarrow> j | None \<Rightarrow> fst (trace_get_empty_process ?c))"
    and cn: "trace_find_process (processes ?c) 200 \<noteq> None" "status (proc ?c 1) = PROCESS_ALLOCATED"
    by (simp_all add: st_def task_def proc_def trace_find_process_def
        SYSCALL_FORK_VFORK_def SYSCALL_FORK_CLONE_def)
  have v: "sink_events ?a = []" "sink_events ?b = []" "sink_events ?c = []"
    "trace ?a = []" "trace ?b = []"
    "identifier (proc ?a 0) = 101" "identifier (proc ?b 0) = 101"
    "wd (proc ?a 0) = ''/home/u''" "wd (proc ?b 0) = ''/home/u''" "tgid (proc ?b 0) = 100"
    "processes ?c = [task 100 100 58 200 [0, 0, 0, 0, 0, 0],
                     (task 200 200 0 0 [0, 0, 0, 0, 0, 0])\<lparr>status := PROCESS_ALLOCATED\<rparr>]"
    by (simp_all add: st_def task_def proc_def sink_events_def)
  from forking_new_task [OF a, of env0 "Some ''fork''"]
       forking_new_task [OF b, of env0 "Some ''clone''"]
       forking_new_task [OF c, of env0 "Some ''vfork''"] an bn cn v
  show ?thesis by auto
qed

subsection \<open>The in_syscall flag across a dispatch\<close>

lemma listed_x64_80:
  "listed list_x86_64 80 = \<lparr>name = Some ''chdir'', proc_entry = None, proc_exit = Some H_chdir, udata = 0\<rparr>"
  by (simp add: listed_def list_x86_64_def U_def live_def to_entry_def)

text \<open>
  A chdir exit while the sink fails: the handler returns non-zero, \<^verbatim>\<open>syscall_handle\<close>
  returns -1 at once, and the task is still marked as inside the syscall, with its
  \<open>current_syscall\<close> in place, and is not resumed.
\<close>

theorem syscall_handle_failure_counterexample:
  "syscall_handle env_sink_down 0 (st [task 100 100 80 0 [0x2000, 0, 0, 0, 0, 0]])
   = Inr (- 1, \<lparr>processes = [(task 100 100 80 0 [0x2000, 0, 0, 0, 0, 0])\<lparr>wd := ''/tmp''\<rparr>],
                 trace = [Mem_free (Wd 0), Db_add_file_open 101 ''/tmp'' FILE_WDIR True]\<rparr>)
   \<and> in_syscall ((task 100 100 80 0 [0x2000, 0, 0, 0, 0, 0])\<lparr>wd := ''/tmp''\<rparr>) = True"
  by (simp add: syscall_handle_def Let_def resolve_entry_def dispatch_entry_def log_if_def
      syscall_type_of_def X32_SYSCALL_BIT_def tables_nth len_x64 x64_entry listed_x64_80
      call_handler.simps syscall_chdir_def sink_call_def abs_path_arg_def emit_def upd_proc_def
      st_def task_def proc_def env_sink_down_def env0_def)

lemma processes_execve_workaround [simp]:
  "processes (snd (execve_workaround E pi nr abi msg s)) = processes s"
  by (simp add: execve_workaround_def Let_def)

lemma resolve_entry_processes:
  "resolve_entry E pi sc tbl s = Inr (e, s3) \<Longrightarrow> processes s3 = processes s"
  by (auto simp: resolve_entry_def Let_def split: if_splits)
     (metis processes_execve_workaround snd_conv)+

lemma keeps_dispatch_entry:
  assumes "dispatch_entry E pi e s = Inr (r, s')" "pi < length (processes s)"
    "length (params (proc s pi)) = PROCESS_ARGS"
  shows "keeps pi s s'"
proof -
  let ?s1 = "log_if (name e \<noteq> None \<and> verbosity E \<ge> 3)
                 (Log Debug (tid (proc s pi)) ''%s()'' [LStr (the (name e))]) s"
  have p: "pi < length (processes ?s1)" "length (params (proc ?s1 pi)) = PROCESS_ARGS"
    using assms by simp_all
  have k1: "keeps pi s ?s1" using assms(2) by (intro keeps_same_processes) simp_all
  from assms(1) have "s' = ?s1 \<or> (\<exists>h. call_handler E h (name e) pi (udata e) ?s1 = Inr (r, s'))"
    by (auto simp: dispatch_entry_def Let_def split: if_splits)
  then show ?thesis
  proof
    assume "s' = ?s1"
    with k1 show ?thesis by simp
  next
    assume "\<exists>h. call_handler E h (name e) pi (udata e) ?s1 = Inr (r, s')"
    then obtain h where "call_handler E h (name e) pi (udata e) ?s1 = Inr (r, s')" ..
    with keeps_xxx_at_and_call(2) [of E h "name e" pi "udata e" ?s1] p
    have "keeps pi ?s1 s'" by blast
    then show ?thesis by (simp add: keeps_def)
  qed
qed


lemma syscall_handle_decompose:
  assumes run: "syscall_handle E pi s = Inr (c, s')" and pi: "pi < length (processes s)"
    and len: "length (params (proc s pi)) = PROCESS_ARGS"
  shows "\<exists>s4. keeps pi s s4
           \<and> ((c = - 1 \<and> s' = s4) \<or> (c = 0 \<and> s' = run_to_next_syscall pi (tid (proc s pi)) s4))"
proof -
  from run obtain e s3 ret s4 where
    res: "resolve_entry E pi (current_syscall (proc s pi) AND NOT X32_SYSCALL_BIT)
            (syscall_tables ! syscall_type_of (proc s pi))
            (log_if (sint (current_syscall (proc s pi) AND NOT X32_SYSCALL_BIT) < 0
                     \<or> sint (current_syscall (proc s pi) AND NOT X32_SYSCALL_BIT) \<ge> 2000)
               (Log Error (tid (proc s pi)) ''INVALID SYSCALL %d''
                  [LInt (sint (current_syscall (proc s pi) AND NOT X32_SYSCALL_BIT))])
               (log_if (verbosity E \<ge> 4)
                  (Log Debug (tid (proc s pi))
                     (if syscall_type_of (proc s pi) = SYSCALL_I386 then ''syscall %d (i386)''
                      else if syscall_type_of (proc s pi) = SYSCALL_X86_64_x32 then ''syscall %d (x32)''
                      else ''syscall %d (x64)'')
                     [LInt (sint (current_syscall (proc s pi) AND NOT X32_SYSCALL_BIT))]) s))
          = Inr (e, s3)"
    and d: "(case e of None \<Rightarrow> Inr (0, s3) | Some en \<Rightarrow> dispatch_entry E pi en s3) = Inr (ret, s4)"
    and fin: "(ret \<noteq> 0 \<and> c = - 1 \<and> s' = s4)
              \<or> (ret = 0 \<and> c = 0 \<and> s' = run_to_next_syscall pi (tid (proc s pi)) s4)"
    by (auto simp: syscall_handle_def Let_def split: sum.splits prod.splits if_splits)
  from resolve_entry_processes [OF res] have p3: "processes s3 = processes s" by simp
  then have k3: "keeps pi s s3" using pi by (intro keeps_same_processes)
  have "keeps pi s3 s4"
  proof (cases e)
    case None
    with d pi p3 show ?thesis by (simp add: keeps_refl)
  next
    case (Some en)
    with d have "dispatch_entry E pi en s3 = Inr (ret, s4)" by simp
    from keeps_dispatch_entry [OF this] pi len p3 show ?thesis by (simp add: proc_def)
  qed
  with p3 have "keeps pi s s4" by (simp add: keeps_def proc_def)
  with fin show ?thesis by blast
qed

lemma syscall_handle_via_outcome:
  "syscall_handle E pi s =
     (case handler_outcome E pi s of
        Inl x \<Rightarrow> Inl x
      | Inr (ret, s4) \<Rightarrow>
          if ret \<noteq> 0 then Inr (- 1, s4)
          else Inr (0, run_to_next_syscall pi (tid (proc s pi)) s4))"
  by (simp add: syscall_handle_def handler_outcome_def Let_def split: sum.splits prod.splits)

lemma ended_emit_sink: "is_sink_event e \<Longrightarrow> ended_in_failure (emit e s)"
  by (simp add: ended_in_failure_def emit_def)

lemma ended_upd_proc [simp]: "ended_in_failure (upd_proc i f s) = ended_in_failure s"
  by (simp add: ended_in_failure_def upd_proc_def)

lemma fails_fileopening:
  "syscall_fileopening E nm pi ud s = Inr (r, s') \<Longrightarrow> r \<noteq> 0 \<Longrightarrow> r = - 1 \<and> ended_in_failure s'"
  by (auto simp: syscall_fileopening_def Let_def sink_call_def is_sink_event_def
      intro!: ended_emit_sink split: if_splits)

lemma fails_filestat:
  "syscall_filestat E nm pi ud s = Inr (r, s') \<Longrightarrow> r \<noteq> 0 \<Longrightarrow> r = - 1 \<and> ended_in_failure s'"
  by (auto simp: syscall_filestat_def Let_def sink_call_def is_sink_event_def
      intro!: ended_emit_sink split: if_splits)

lemma fails_readlink:
  "syscall_readlink E nm pi ud s = Inr (r, s') \<Longrightarrow> r \<noteq> 0 \<Longrightarrow> r = - 1 \<and> ended_in_failure s'"
  by (auto simp: syscall_readlink_def Let_def sink_call_def is_sink_event_def
      intro!: ended_emit_sink split: if_splits)

lemma fails_mkdir:
  "syscall_mkdir E nm pi ud s = Inr (r, s') \<Longrightarrow> r \<noteq> 0 \<Longrightarrow> r = - 1 \<and> ended_in_failure s'"
  by (auto simp: syscall_mkdir_def Let_def sink_call_def is_sink_event_def
      intro!: ended_emit_sink split: if_splits)

lemma fails_symlink:
  "syscall_symlink E nm pi ud s = Inr (r, s') \<Longrightarrow> r \<noteq> 0 \<Longrightarrow> r = - 1 \<and> ended_in_failure s'"
  by (auto simp: syscall_symlink_def syscall_unhandled_other_def Let_def sink_call_def
      is_sink_event_def intro!: ended_emit_sink split: if_splits)

lemma fails_chdir:
  "syscall_chdir E nm pi ud s = Inr (r, s') \<Longrightarrow> r \<noteq> 0 \<Longrightarrow> r = - 1 \<and> ended_in_failure s'"
  by (auto simp: syscall_chdir_def Let_def sink_call_def is_sink_event_def
      intro!: ended_emit_sink split: if_splits)

lemma fails_never:
  "syscall_unhandled_path1 E nm pi ud s = Inr (r, s') \<Longrightarrow> r = 0"
  "syscall_unhandled_other E nm pi ud s = Inr (r, s') \<Longrightarrow> r = 0"
  "syscall_execve_in E nm pi ud s = Inr (r, s') \<Longrightarrow> r = 0"
  "syscall_accept E nm pi ud s = Inr (r, s') \<Longrightarrow> r = 0"
  "syscall_connect E nm pi ud s = Inr (r, s') \<Longrightarrow> r = 0"
  "syscall_socketcall E nm pi ud s = Inr (r, s') \<Longrightarrow> r = 0"
  by (auto simp: syscall_unhandled_path1_def syscall_unhandled_other_def syscall_execve_in_def
      syscall_accept_def syscall_connect_def syscall_socketcall_def handle_accept_def
      handle_connect_def Let_def split: if_splits)

lemma fails_execve_out_finish:
  "execve_out_finish E pi ep ei s = Inr (r, s') \<Longrightarrow> r \<noteq> 0 \<Longrightarrow> r = - 1 \<and> ended_in_failure s'"
  by (auto simp: execve_out_finish_def Let_def sink_call_def is_sink_event_def
      intro!: ended_emit_sink split: if_splits)

lemma fails_execve_out:
  "syscall_execve_out E nm pi ud s = Inr (r, s') \<Longrightarrow> r \<noteq> 0 \<Longrightarrow> r = - 1 \<and> ended_in_failure s'"
  by (auto simp: syscall_execve_out_def Let_def sink_call_def is_sink_event_def
      intro!: ended_emit_sink dest: fails_execve_out_finish split: if_splits option.splits)

lemma fails_forking_register:
  "forking_register E pi th k s = Inr (r, s') \<Longrightarrow> r \<noteq> 0 \<Longrightarrow> r = - 1 \<and> ended_in_failure s'"
  by (auto simp: forking_register_def Let_def sink_call_def is_sink_event_def
      intro!: ended_emit_sink split: if_splits)

lemma fails_forking:
  "syscall_forking E nm pi ud s = Inr (r, s') \<Longrightarrow> r \<noteq> 0 \<Longrightarrow> r = - 1 \<and> ended_in_failure s'"
  by (auto simp: syscall_forking_def Let_def ended_in_failure_def emit_def is_critical_def
      dest: fails_forking_register split: if_splits option.splits prod.splits)



lemma fails_xxx_at_and_call:
  "(\<forall>r s'. syscall_xxx_at E nm pi r0 s = Inr (r, s') \<longrightarrow> r \<noteq> 0 \<longrightarrow> r = - 1 \<and> ended_in_failure s')"
  "(\<forall>r s'. call_handler E h nm pi ud s = Inr (r, s') \<longrightarrow> r \<noteq> 0 \<longrightarrow> r = - 1 \<and> ended_in_failure s')"
proof (induction E nm pi r0 s and E h nm pi ud s rule: syscall_xxx_at_call_handler.induct)
  case (1 E nm pi real_syscall s)
  show ?case
  proof (intro allI impI)
    fix r :: int and s'
    assume run: "syscall_xxx_at E nm pi real_syscall s = Inr (r, s')" and r: "r \<noteq> 0"
    let ?tbl = "syscall_tables ! syscall_type_of (proc s pi)"
    let ?e = "entries ?tbl ! unat real_syscall"
    let ?s1 = "upd_proc pi (\<lambda>p. p\<lparr>params := shift_args (params p)\<rparr>) s"
    show "r = - 1 \<and> ended_in_failure s'"
    proof (cases "sint (params (proc s pi) ! 0) = AT_FDCWD \<and> unat real_syscall < table_length ?tbl
                  \<and> proc_exit ?e \<noteq> None \<and> name ?e \<noteq> None")
      case False
      with run r show ?thesis
        by (subst (asm) syscall_xxx_at.simps)
           (auto simp: Let_def syscall_unhandled_other_def split: if_splits option.splits)
    next
      case True
      then obtain h where h: "proc_exit ?e = Some h" by auto
      from True h run obtain s2 where
        inner: "call_handler E h nm pi (udata ?e) ?s1 = Inr (r, s2)"
        and s': "s' = upd_proc pi (\<lambda>p. p\<lparr>params := unshift_args (params (proc s pi) ! 0) (params p)\<rparr>) s2"
        by (subst (asm) syscall_xxx_at.simps)
           (auto simp: Let_def split: sum.splits prod.splits)
      from True h have "r = - 1 \<and> ended_in_failure s2"
        using "1.IH" [OF refl _ refl refl _ h _ refl refl] inner r by auto
      with s' show ?thesis by simp
    qed
  qed
next
  case (2 E h nm pi ud s)
  show ?case
  proof (intro allI impI)
    fix r :: int and s'
    assume run: "call_handler E h nm pi ud s = Inr (r, s')" and r: "r \<noteq> 0"
    show "r = - 1 \<and> ended_in_failure s'"
    proof (cases h)
      case H_xxx_at
      with run have "syscall_xxx_at E nm pi ud s = Inr (r, s')"
        by (subst (asm) call_handler.simps) simp
      with "2.IH" [OF H_xxx_at] r show ?thesis by blast
    qed (use run r in \<open>auto simp: call_handler.simps
            dest: fails_never fails_fileopening fails_filestat
            fails_readlink fails_mkdir fails_symlink fails_chdir fails_execve_out
            fails_forking\<close>)
  qed
qed

lemma fails_dispatch_entry:
  assumes "dispatch_entry E pi e s = Inr (r, s')" "r \<noteq> 0"
  shows "r = - 1 \<and> ended_in_failure s'"
proof -
  let ?s1 = "log_if (name e \<noteq> None \<and> verbosity E \<ge> 3)
                 (Log Debug (tid (proc s pi)) ''%s()'' [LStr (the (name e))]) s"
  from assms have "\<exists>h. call_handler E h (name e) pi (udata e) ?s1 = Inr (r, s')"
    by (auto simp: dispatch_entry_def Let_def split: if_splits)
  with fails_xxx_at_and_call(2) assms(2) show ?thesis by blast
qed

lemma fails_handler_outcome:
  assumes "handler_outcome E pi s = Inr (r, s')" "r \<noteq> 0"
  shows "r = - 1 \<and> ended_in_failure s'"
  using assms
  by (auto simp: handler_outcome_def Let_def dest: fails_dispatch_entry
      split: sum.splits prod.splits option.splits)

lemma keeps_handler_outcome:
  assumes run: "handler_outcome E pi s = Inr (r, s4)" and pi: "pi < length (processes s)"
    and len: "length (params (proc s pi)) = PROCESS_ARGS"
  shows "keeps pi s s4"
proof -
  from run obtain e s3 where
    res: "resolve_entry E pi (current_syscall (proc s pi) AND NOT X32_SYSCALL_BIT)
            (syscall_tables ! syscall_type_of (proc s pi))
            (log_if (sint (current_syscall (proc s pi) AND NOT X32_SYSCALL_BIT) < 0
                     \<or> sint (current_syscall (proc s pi) AND NOT X32_SYSCALL_BIT) \<ge> 2000)
               (Log Error (tid (proc s pi)) ''INVALID SYSCALL %d''
                  [LInt (sint (current_syscall (proc s pi) AND NOT X32_SYSCALL_BIT))])
               (log_if (verbosity E \<ge> 4)
                  (Log Debug (tid (proc s pi))
                     (if syscall_type_of (proc s pi) = SYSCALL_I386 then ''syscall %d (i386)''
                      else if syscall_type_of (proc s pi) = SYSCALL_X86_64_x32 then ''syscall %d (x32)''
                      else ''syscall %d (x64)'')
                     [LInt (sint (current_syscall (proc s pi) AND NOT X32_SYSCALL_BIT))]) s))
          = Inr (e, s3)"
    and d: "(case e of None \<Rightarrow> Inr (0, s3) | Some en \<Rightarrow> dispatch_entry E pi en s3) = Inr (r, s4)"
    by (auto simp: handler_outcome_def Let_def split: sum.splits prod.splits)
  from resolve_entry_processes [OF res] have p3: "processes s3 = processes s" by simp
  have "keeps pi s3 s4"
  proof (cases e)
    case None
    with d pi p3 show ?thesis by (simp add: keeps_refl)
  next
    case (Some en)
    with d have "dispatch_entry E pi en s3 = Inr (r, s4)" by simp
    from keeps_dispatch_entry [OF this] pi len p3 show ?thesis by (simp add: proc_def)
  qed
  with p3 show ?thesis by (simp add: keeps_def proc_def)
qed

text \<open>
  C4, as amended. For every task whose slot is in use and every invocation of
  \<^verbatim>\<open>syscall_handle\<close> that returns 0: the invocation leaves the task's \<open>in_syscall\<close> flag
  negated, the handlers it ran having left it alone, and on the exit edge
  \<open>current_syscall\<close> is -1 and \<open>syscall_info\<close> is null in the state the task is resumed
  from. A handler that returns non-zero makes the invocation return -1 at once, in the
  very state the handler left, and the invocation returns non-zero in no other way:
  \<open>in_syscall\<close> is then as it was and the task is not resumed, the last outward call
  being the failing call to the sink or the critical log of the handler.
\<close>

theorem syscall_handle_flips_in_syscall:
  assumes "pi < length (processes s)" and "status (proc s pi) \<noteq> PROCESS_FREE"
    and "length (params (proc s pi)) = PROCESS_ARGS"
  shows "(syscall_handle E pi s = Inr (0, s') \<longrightarrow>
            (\<exists>s4. s' = emit (Ptrace_SYSCALL (tid (proc s pi))) s4
                \<and> in_syscall (proc s4 pi) = (\<not> in_syscall (proc s pi))
                \<and> (in_syscall (proc s pi) \<longrightarrow>
                      current_syscall (proc s4 pi) = - 1 \<and> syscall_info (proc s4 pi) = None))
            \<and> in_syscall (proc s' pi) = (\<not> in_syscall (proc s pi)))
       \<and> (syscall_handle E pi s = Inr (c, s') \<and> c \<noteq> 0 \<longrightarrow>
            c = - 1 \<and> in_syscall (proc s' pi) = in_syscall (proc s pi)
            \<and> (\<exists>ret. ret \<noteq> 0 \<and> handler_outcome E pi s = Inr (ret, s'))
            \<and> trace s' \<noteq> []
            \<and> (is_sink_event (last (trace s')) \<or> is_critical (last (trace s'))))
       \<and> (handler_outcome E pi s = Inr (ret, s4) \<and> ret \<noteq> 0 \<longrightarrow>
            syscall_handle E pi s = Inr (- 1, s4))"
proof (intro conjI impI)
  assume run: "syscall_handle E pi s = Inr (0, s')"
  from syscall_handle_decompose [OF run assms(1,3)] obtain s4 where
    k: "keeps pi s s4" and s': "s' = run_to_next_syscall pi (tid (proc s pi)) s4"
    by auto
  let ?s5 = "if in_syscall (proc s4 pi)
        then upd_proc pi (\<lambda>p. p\<lparr>in_syscall := False, current_syscall := - 1,
                                  syscall_info := None\<rparr>) s4
        else upd_proc pi (\<lambda>p. p\<lparr>in_syscall := True\<rparr>) s4"
  have e: "s' = emit (Ptrace_SYSCALL (tid (proc s pi))) ?s5"
    using s' by (simp add: run_to_next_syscall_def)
  have f: "in_syscall (proc ?s5 pi) = (\<not> in_syscall (proc s pi))"
    "in_syscall (proc s pi) \<longrightarrow> current_syscall (proc ?s5 pi) = - 1 \<and> syscall_info (proc ?s5 pi) = None"
    using k assms(2) by (auto simp: keeps_def proc_upd_proc)
  from e f show "\<exists>s4. s' = emit (Ptrace_SYSCALL (tid (proc s pi))) s4
                \<and> in_syscall (proc s4 pi) = (\<not> in_syscall (proc s pi))
                \<and> (in_syscall (proc s pi) \<longrightarrow>
                      current_syscall (proc s4 pi) = - 1 \<and> syscall_info (proc s4 pi) = None)"
    by blast
  from e f show "in_syscall (proc s' pi) = (\<not> in_syscall (proc s pi))"
    by simp
next
  assume run: "syscall_handle E pi s = Inr (c, s') \<and> c \<noteq> 0"
  then obtain ret where o: "handler_outcome E pi s = Inr (ret, s')" and ret: "ret \<noteq> 0"
    and c: "c = - 1"
    by (auto simp: syscall_handle_via_outcome split: sum.splits prod.splits if_splits)
  from c show "c = - 1" .
  from keeps_handler_outcome [OF o assms(1,3)] assms(2)
  show "in_syscall (proc s' pi) = in_syscall (proc s pi)"
    by (simp add: keeps_def)
  from o ret show "\<exists>ret. ret \<noteq> 0 \<and> handler_outcome E pi s = Inr (ret, s')" by blast
  from fails_handler_outcome [OF o ret]
  show "trace s' \<noteq> []" "is_sink_event (last (trace s')) \<or> is_critical (last (trace s'))"
    by (simp_all add: ended_in_failure_def)
next
  assume "handler_outcome E pi s = Inr (ret, s4) \<and> ret \<noteq> 0"
  then show "syscall_handle E pi s = Inr (- 1, s4)"
    by (simp add: syscall_handle_via_outcome)
qed


text \<open>An open exit that succeeds, for the witness of C4.\<close>

lemma syscall_handle_open_run:
  "syscall_handle env0 0 (st [task 100 100 2 3 [0x1000, 0, 0, 0, 0, 0]])
   = Inr (0, \<lparr>processes = [(task 100 100 2 3 [0x1000, 0, 0, 0, 0, 0])
                              \<lparr>in_syscall := False, current_syscall := - 1, syscall_info := None\<rparr>],
               trace = [Db_add_file_open 101 ''/home/u/out'' FILE_READ False, Ptrace_SYSCALL 100]\<rparr>)"
  by (simp add: syscall_handle_def Let_def resolve_entry_def dispatch_entry_def log_if_def
      syscall_type_of_def X32_SYSCALL_BIT_def tables_nth len_x64 x64_entry listed_x64_2
      call_handler.simps syscall_fileopening_def sink_call_def abs_path_arg_def emit_def
      upd_proc_def run_to_next_syscall_def flags2mode_def
      SYSCALL_OPENING_OPEN_def SYSCALL_OPENING_ACCESS_def SYSCALL_OPENING_CREAT_def
      O_ACCMODE_def O_RDONLY_def O_RDWR_def O_WRONLY_def O_CREAT_def O_TRUNC_def FILE_READ_def
      st_def task_def proc_def env0_def)

theorem syscall_handle_flips_in_syscall_witness:
  "in_syscall (proc \<lparr>processes = [(task 100 100 2 3 [0x1000, 0, 0, 0, 0, 0])
                              \<lparr>in_syscall := False, current_syscall := - 1, syscall_info := None\<rparr>],
               trace = [Db_add_file_open 101 ''/home/u/out'' FILE_READ False, Ptrace_SYSCALL 100]\<rparr> 0)
     = False
   \<and> handler_outcome env_sink_down 0 (st [task 100 100 80 0 [0x2000, 0, 0, 0, 0, 0]])
     = Inr (- 1, \<lparr>processes = [(task 100 100 80 0 [0x2000, 0, 0, 0, 0, 0])\<lparr>wd := ''/tmp''\<rparr>],
                   trace = [Mem_free (Wd 0), Db_add_file_open 101 ''/tmp'' FILE_WDIR True]\<rparr>)
   \<and> syscall_handle env_sink_down 0 (st [task 100 100 80 0 [0x2000, 0, 0, 0, 0, 0]])
     = Inr (- 1, \<lparr>processes = [(task 100 100 80 0 [0x2000, 0, 0, 0, 0, 0])\<lparr>wd := ''/tmp''\<rparr>],
                   trace = [Mem_free (Wd 0), Db_add_file_open 101 ''/tmp'' FILE_WDIR True]\<rparr>)
   \<and> in_syscall (proc \<lparr>processes = [(task 100 100 80 0 [0x2000, 0, 0, 0, 0, 0])\<lparr>wd := ''/tmp''\<rparr>],
                 trace = [Mem_free (Wd 0), Db_add_file_open 101 ''/tmp'' FILE_WDIR True]\<rparr> 0)
     = True"
proof -
  let ?a = "st [task 100 100 2 3 [0x1000, 0, 0, 0, 0, 0]]"
  let ?b = "st [task 100 100 80 0 [0x2000, 0, 0, 0, 0, 0]]"
  let ?a' = "\<lparr>processes = [(task 100 100 2 3 [0x1000, 0, 0, 0, 0, 0])
                              \<lparr>in_syscall := False, current_syscall := - 1, syscall_info := None\<rparr>],
               trace = [Db_add_file_open 101 ''/home/u/out'' FILE_READ False, Ptrace_SYSCALL 100]\<rparr>"
  let ?b' = "\<lparr>processes = [(task 100 100 80 0 [0x2000, 0, 0, 0, 0, 0])\<lparr>wd := ''/tmp''\<rparr>],
                 trace = [Mem_free (Wd 0), Db_add_file_open 101 ''/tmp'' FILE_WDIR True]\<rparr>"
  have a: "0 < length (processes ?a)" "status (proc ?a 0) \<noteq> PROCESS_FREE"
    "length (params (proc ?a 0)) = PROCESS_ARGS"
    by (simp_all add: st_def task_def proc_def PROCESS_ARGS_def)
  have b: "0 < length (processes ?b)" "status (proc ?b 0) \<noteq> PROCESS_FREE"
    "length (params (proc ?b 0)) = PROCESS_ARGS"
    by (simp_all add: st_def task_def proc_def PROCESS_ARGS_def)
  have out: "handler_outcome env_sink_down 0 ?b = Inr (- 1, ?b')"
    by (simp add: handler_outcome_def Let_def resolve_entry_def dispatch_entry_def log_if_def
      syscall_type_of_def X32_SYSCALL_BIT_def tables_nth len_x64 x64_entry listed_x64_80
      call_handler.simps syscall_chdir_def sink_call_def abs_path_arg_def emit_def upd_proc_def
      st_def task_def proc_def env_sink_down_def env0_def)
  have ia: "in_syscall (proc ?a 0)" and ib: "in_syscall (proc ?b 0)"
    by (simp_all add: st_def task_def proc_def)
  note ta = syscall_handle_flips_in_syscall [OF a, where E = env0 and s' = ?a']
  note tb = syscall_handle_flips_in_syscall [OF b, where E = env_sink_down and s' = ?b'
              and c = "- 1" and ret = "- 1" and ?s4.0 = ?b']
  from ta syscall_handle_open_run ia have 1: "in_syscall (proc ?a' 0) = False" by simp
  from tb out have 2: "syscall_handle env_sink_down 0 ?b = Inr (- 1, ?b')" by simp
  from tb 2 ib have 3: "in_syscall (proc ?b' 0) = True" by simp
  from 1 out 2 3 show ?thesis by simp
qed

end
